theory Spec2Isabelle
  imports Main
begin

section \<open>Python values shared by both modules\<close>

text \<open>
  Paths, \<open>str\<close> values and \<open>bytes\<close> values are character lists. An optional
  argument whose Python default is \<open>None\<close> is an \<open>option\<close>.
\<close>

type_synonym path = string
type_synonym bytes = string

text \<open>
  The exception classes that Python and the libraries raise and that the two modules
  catch or let through. A constructor carries \<open>str(e)\<close>. In Python 3 \<open>IOError\<close> is
  another name of \<open>OSError\<close>; paramiko's \<open>AuthenticationException\<close> is a subclass of
  \<open>SSHException\<close>, which is a direct subclass of \<open>Exception\<close>; \<open>zipfile.error\<close> is
  \<open>BadZipFile\<close>.
\<close>

datatype pyexc =
    OSError string
  | SSHException string
  | AuthenticationException string
  | BadZipFile string
  | ValueError string
  | AttributeError string
  | UnicodeDecodeError string
  | EOFError string
  | KeyboardInterrupt string

text \<open>
  Modelled from the spec: the exception classes of \<open>libvirtnbdbackup.outputhelper.exceptions\<close>
  and \<open>libvirtnbdbackup.sshutil.exceptions\<close>, two modules that are not among the sources.
  The specification's error kinds CreateDirectoryError, OpenError and RemoteCommandError /
  ConnectionError are the classes the code names \<open>OutputCreateDirectory\<close>,
  \<open>OutputOpenException\<close> and \<open>sshutilError\<close>; each carries the arguments it is raised
  with (\<open>OutputCreateDirectory\<close> one or two). What a method of the two modules raises is
  one of these, or an exception of Python or a library that it lets through.
\<close>

datatype exc =
    Lib pyexc
  | OutputCreateDirectory string "string option"
  | OutputOpenException string
  | sshutilError string

fun str_exc :: "pyexc \<Rightarrow> string" where
  "str_exc (OSError m) = m"
| "str_exc (SSHException m) = m"
| "str_exc (AuthenticationException m) = m"
| "str_exc (BadZipFile m) = m"
| "str_exc (ValueError m) = m"
| "str_exc (AttributeError m) = m"
| "str_exc (UnicodeDecodeError m) = m"
| "str_exc (EOFError m) = m"
| "str_exc (KeyboardInterrupt m) = m"

text \<open>An exception of a library call that no handler catches goes to the caller.\<close>

definition propagate :: "(pyexc + 'a) \<times> 'w \<Rightarrow> (exc + 'a) \<times> 'w" where
  "propagate r = (case r of (Inl e, w) \<Rightarrow> (Inl (Lib e), w) | (Inr v, w) \<Rightarrow> (Inr v, w))"

text \<open>What \<open>except OSError\<close> (and \<open>except IOError\<close>) catches.\<close>

fun is_OSError :: "pyexc \<Rightarrow> bool" where
  "is_OSError (OSError _) = True"
| "is_OSError _ = False"

text \<open>What \<open>except zipfile.error\<close> catches.\<close>

fun is_zipfile_error :: "pyexc \<Rightarrow> bool" where
  "is_zipfile_error (BadZipFile _) = True"
| "is_zipfile_error _ = False"

text \<open>What \<open>except SSHException\<close> catches: the class and its subclasses.\<close>

fun is_SSHException :: "pyexc \<Rightarrow> bool" where
  "is_SSHException (SSHException _) = True"
| "is_SSHException (AuthenticationException _) = True"
| "is_SSHException _ = False"

text \<open>What \<open>except AuthenticationException\<close> catches.\<close>

fun is_AuthenticationException :: "pyexc \<Rightarrow> bool" where
  "is_AuthenticationException (AuthenticationException _) = True"
| "is_AuthenticationException _ = False"

text \<open>What \<open>except Exception\<close> catches: everything but \<open>BaseException\<close>-only classes.\<close>

fun is_Exception :: "pyexc \<Rightarrow> bool" where
  "is_Exception (KeyboardInterrupt _) = False"
| "is_Exception _ = True"

section \<open>The local system seen by \<open>outputhelper.py\<close>\<close>

text \<open>
  The module calls \<open>os.path.exists\<close>, \<open>os.path.isdir\<close>, \<open>os.makedirs\<close>, the builtin
  \<open>open\<close>, the methods of the file object it returns, \<open>zipfile.ZipFile\<close>,
  \<open>ZipFile.open\<close>, the methods of the member handle it returns, and
  \<open>datetime.now\<close>. The world below is what these calls read and change. Every call is
  appended to \<open>oslog\<close>; a call that can fail for a reason outside the model (permissions,
  disk full, a broken pipe) raises what \<open>fault\<close> gives for its position in the log.
  \<open>referenced\<close> tells of a file object whether the caller of the module still holds a
  reference to it, \<open>finalize_fails\<close> whether the flush made when the interpreter finalizes
  it fails.
\<close>

datatype node = RegFile bytes | DirNode

text \<open>
  A file object: the file it was opened on, its mode, the offset of its descriptor, the
  bytes written but not yet flushed, and whether it is closed.
\<close>

record pyfile =
  f_path :: path
  f_mode :: string
  f_pos :: nat
  f_buf :: bytes
  f_closed :: bool

text \<open>\<open>datetime\<close>: year, month, day, hour, minute, second, microsecond.\<close>

type_synonym datetime = "nat \<times> nat \<times> nat \<times> nat \<times> nat \<times> nat \<times> nat"

record zipinfo =
  zi_filename :: string
  zi_date_time :: "nat \<times> nat \<times> nat \<times> nat \<times> nat \<times> nat"
  zi_compress_type :: nat

record zipfile =
  zf_members :: "(zipinfo \<times> bytes) list"
  zf_writing :: bool
  zf_closed :: bool

record zipwriter =
  zw_zip :: nat
  zw_info :: zipinfo
  zw_force_zip64 :: bool
  zw_data :: bytes
  zw_closed :: bool

datatype libcall =
    OsPathExists path
  | OsPathIsdir path
  | OsMakedirs path
  | BuiltinOpen path string
  | FileWrite nat bytes
  | FileFlush nat
  | FileClose nat
  | ZipFileNew string nat
  | ZipFileOpen nat zipinfo string bool
  | ZipWrite nat bytes
  | ZipMemberClose nat
  | ZipFileClose nat
  | DatetimeNow

record world =
  cwd :: path
  nodes :: "path \<rightharpoonup> node"
  files :: "nat \<rightharpoonup> pyfile"
  zips :: "nat \<rightharpoonup> zipfile"
  zwriters :: "nat \<rightharpoonup> zipwriter"
  next_id :: nat
  clock :: "nat \<Rightarrow> datetime"
  oslog :: "libcall list"
  fault :: "nat \<Rightarrow> pyexc option"
  referenced :: "nat \<Rightarrow> bool"
  finalize_fails :: "nat \<Rightarrow> bool"

text \<open>Log a call; the result is the fault injected at this position, if any.\<close>

definition lib_call :: "libcall \<Rightarrow> world \<Rightarrow> pyexc option \<times> world" where
  "lib_call c w = (fault w (length (oslog w)), w\<lparr>oslog := oslog w @ [c]\<rparr>)"

text \<open>A relative path is resolved against the working directory; nothing is normalised.\<close>

definition abspath :: "world \<Rightarrow> path \<Rightarrow> path" where
  "abspath w p = (case p of [] \<Rightarrow> cwd w | c # _ \<Rightarrow> if c = CHR ''/'' then p else cwd w @ ''/'' @ p)"

text \<open>\<open>os.path.exists\<close> and \<open>os.path.isdir\<close> answer False instead of raising.\<close>

definition os_path_exists :: "path \<Rightarrow> world \<Rightarrow> bool \<times> world" where
  "os_path_exists p w = (nodes w (abspath w p) \<noteq> None, snd (lib_call (OsPathExists p) w))"

definition os_path_isdir :: "path \<Rightarrow> world \<Rightarrow> bool \<times> world" where
  "os_path_isdir p w = (nodes w (abspath w p) = Some DirNode, snd (lib_call (OsPathIsdir p) w))"

text \<open>The directory itself and every ancestor named by a prefix that ends before a slash.\<close>

definition dir_chain :: "path \<Rightarrow> path list" where
  "dir_chain p = [take i p. i \<leftarrow> [1..<length p], p ! i = CHR ''/''] @ [p]"

text \<open>
  \<open>os.makedirs(p)\<close> with \<open>exist_ok=False\<close>: \<open>FileExistsError\<close> when the leaf exists,
  \<open>NotADirectoryError\<close> when an ancestor is a regular file (both are \<open>OSError\<close>).
\<close>

definition os_makedirs :: "path \<Rightarrow> world \<Rightarrow> (pyexc + unit) \<times> world" where
  "os_makedirs p w =
     (case lib_call (OsMakedirs p) w of
        (Some e, w') \<Rightarrow> (Inl e, w')
      | (None, w') \<Rightarrow>
          let a = abspath w' p in
          if nodes w' a \<noteq> None then (Inl (OSError ''File exists''), w')
          else if list_ex (\<lambda>d. case nodes w' d of Some (RegFile _) \<Rightarrow> True | _ \<Rightarrow> False) (dir_chain a)
          then (Inl (OSError ''Not a directory''), w')
          else (Inr (), w'\<lparr>nodes := foldl (\<lambda>m d. m(d \<mapsto> DirNode)) (nodes w') (dir_chain a)\<rparr>))"

text \<open>
  The builtin \<open>open(p, mode)\<close>. A mode names exactly one of \<open>r\<close>, \<open>w\<close>, \<open>a\<close>, \<open>x\<close>
  (anything else is Python's \<open>ValueError\<close>: invalid mode). \<open>w\<close> creates or truncates,
  \<open>a\<close> and \<open>x\<close> create, \<open>x\<close> refuses an existing file, \<open>r\<close> a missing one; a directory
  cannot be opened. The new file object gets the next handle; its write buffer is empty
  and its descriptor is at offset 0.
\<close>

definition mode_kinds :: "string \<Rightarrow> char list" where
  "mode_kinds m = filter (\<lambda>c. c \<in> set ''rwax'') m"

definition valid_mode :: "string \<Rightarrow> bool" where
  "valid_mode m = (length (mode_kinds m) = 1 \<and> set m \<subseteq> set ''rwaxbt+'' \<and> distinct m
                   \<and> \<not> (CHR ''b'' \<in> set m \<and> CHR ''t'' \<in> set m))"

definition builtin_open :: "path \<Rightarrow> string \<Rightarrow> world \<Rightarrow> (pyexc + nat) \<times> world" where
  "builtin_open p m w =
     (case lib_call (BuiltinOpen p m) w of
        (Some e, w') \<Rightarrow> (Inl e, w')
      | (None, w') \<Rightarrow>
          let a = abspath w' p; k = mode_kinds m; old = nodes w' a in
          if \<not> valid_mode m then (Inl (ValueError ''invalid mode''), w')
          else if old = Some DirNode then (Inl (OSError ''Is a directory''), w')
          else if k = ''r'' \<and> old = None then (Inl (OSError ''No such file or directory''), w')
          else if k = ''x'' \<and> old \<noteq> None then (Inl (OSError ''File exists''), w')
          else
            let h = next_id w';
                content = (if k = ''w'' \<or> old = None then RegFile [] else the old)
            in (Inr h,
                w'\<lparr>nodes := (nodes w')(a \<mapsto> content),
                   files := (files w')(h \<mapsto>
                      \<lparr>f_path = a, f_mode = m, f_pos = 0, f_buf = [], f_closed = False\<rparr>),
                   next_id := Suc h\<rparr>))"

text \<open>
  Writing bytes into a file's content at an offset: the bytes replace what is there, and
  a gap between the end of the content and the offset is filled with NUL bytes. Writing
  nothing changes nothing.
\<close>

definition write_at :: "nat \<Rightarrow> bytes \<Rightarrow> bytes \<Rightarrow> bytes" where
  "write_at pos bs old =
     (if bs = [] then old
      else take pos old @ replicate (pos - length old) (CHR 0x00) @ bs @ drop (pos + length bs) old)"

definition file_content :: "(path \<rightharpoonup> node) \<Rightarrow> path \<Rightarrow> bytes" where
  "file_content m a = (case m a of Some (RegFile old) \<Rightarrow> old | _ \<Rightarrow> [])"

text \<open>Where a flush writes: at the end in append mode, at the descriptor's offset otherwise.\<close>

definition write_pos :: "pyfile \<Rightarrow> bytes \<Rightarrow> nat" where
  "write_pos f old = (if CHR ''a'' \<in> set (f_mode f) then length old else f_pos f)"

text \<open>
  Flushing a file object: its buffer goes into the file (which is created if it is
  gone), the descriptor moves past the bytes written, and the buffer is empty.
\<close>

definition flush_node :: "pyfile \<Rightarrow> (path \<rightharpoonup> node) \<Rightarrow> (path \<rightharpoonup> node)" where
  "flush_node f m =
     m(f_path f \<mapsto> RegFile (write_at (write_pos f (file_content m (f_path f))) (f_buf f)
                                (file_content m (f_path f))))"

definition flushed :: "pyfile \<Rightarrow> (path \<rightharpoonup> node) \<Rightarrow> pyfile" where
  "flushed f m = f\<lparr>f_pos := write_pos f (file_content m (f_path f)) + length (f_buf f), f_buf := []\<rparr>"

text \<open>A mode that allows writing names one of \<open>w\<close>, \<open>a\<close>, \<open>x\<close> or has a \<open>+\<close>.\<close>

definition writable :: "string \<Rightarrow> bool" where
  "writable m = list_ex (\<lambda>c. c \<in> set ''wax+'') m"

text \<open>
  The methods of a file object. \<open>write\<close> puts the bytes into the object's buffer and
  returns their number; on an object not opened for writing it raises
  \<open>io.UnsupportedOperation\<close>, an \<open>OSError\<close>. \<open>flush\<close> moves the buffer to the file;
  \<open>close\<close> flushes and closes, and is a no-op on a closed file. \<open>write\<close> and \<open>flush\<close>
  on a closed file raise \<open>ValueError\<close>.
\<close>

definition file_write :: "nat \<Rightarrow> bytes \<Rightarrow> world \<Rightarrow> (pyexc + nat) \<times> world" where
  "file_write h bs w =
     (case lib_call (FileWrite h bs) w of
        (Some e, w') \<Rightarrow> (Inl e, w')
      | (None, w') \<Rightarrow>
          (case files w' h of
             None \<Rightarrow> (Inl (ValueError ''I/O operation on closed file.''), w')
           | Some f \<Rightarrow>
               if f_closed f then (Inl (ValueError ''I/O operation on closed file.''), w')
               else if \<not> writable (f_mode f) then (Inl (OSError ''not writable''), w')
               else (Inr (length bs), w'\<lparr>files := (files w')(h \<mapsto> f\<lparr>f_buf := f_buf f @ bs\<rparr>)\<rparr>)))"

definition file_flush :: "nat \<Rightarrow> world \<Rightarrow> (pyexc + unit) \<times> world" where
  "file_flush h w =
     (case lib_call (FileFlush h) w of
        (Some e, w') \<Rightarrow> (Inl e, w')
      | (None, w') \<Rightarrow>
          (case files w' h of
             None \<Rightarrow> (Inl (ValueError ''I/O operation on closed file.''), w')
           | Some f \<Rightarrow>
               if f_closed f then (Inl (ValueError ''I/O operation on closed file.''), w')
               else (Inr (), w'\<lparr>nodes := flush_node f (nodes w'),
                                files := (files w')(h \<mapsto> flushed f (nodes w'))\<rparr>)))"

definition file_close :: "nat \<Rightarrow> world \<Rightarrow> (pyexc + unit) \<times> world" where
  "file_close h w =
     (case lib_call (FileClose h) w of
        (Some e, w') \<Rightarrow> (Inl e, w')
      | (None, w') \<Rightarrow>
          (case files w' h of
             None \<Rightarrow> (Inr (), w')
           | Some f \<Rightarrow>
               if f_closed f then (Inr (), w')
               else (Inr (), w'\<lparr>nodes := flush_node f (nodes w'),
                                files := (files w')(h \<mapsto> (flushed f (nodes w'))\<lparr>f_closed := True\<rparr>)\<rparr>)))"

text \<open>
  When the last reference to a file object goes away, the interpreter finalizes it: an
  object still open is flushed and closed, and an exception of that flush is ignored,
  the buffered bytes being lost. This is no call of the module and is not logged.
\<close>

definition finalize_file :: "nat \<Rightarrow> world \<Rightarrow> world" where
  "finalize_file h w =
     (case files w h of
        None \<Rightarrow> w
      | Some f \<Rightarrow>
          if f_closed f then w
          else w\<lparr>nodes := (if finalize_fails w h then nodes w else flush_node f (nodes w)),
                 files := (files w)(h \<mapsto> (flushed f (nodes w))\<lparr>f_closed := True\<rparr>)\<rparr>)"

text \<open>
  An attribute that held the file object \<open>old\<close> is bound to the object \<open>new\<close>: the old
  object, unless it is the new one or the caller still holds it, is finalized.
\<close>

definition rebind :: "nat option \<Rightarrow> nat \<Rightarrow> world \<Rightarrow> world" where
  "rebind old new w =
     (case old of
        None \<Rightarrow> w
      | Some h \<Rightarrow> if h = new \<or> referenced w h then w else finalize_file h w)"

text \<open>Reading an entry back from the directory: the content of the regular file.\<close>

definition read_back :: "world \<Rightarrow> path \<Rightarrow> bytes option" where
  "read_back w p = (case nodes w (abspath w p) of Some (RegFile bs) \<Rightarrow> Some bs | _ \<Rightarrow> None)"

section \<open>\<open>outputHelper.Directory\<close>\<close>

record Directory =
  targetDir :: "path option"
  fileHandle :: "nat option"

text \<open>\<open>Directory._makeDir\<close>; it runs only with a target directory that is not None.\<close>

definition Directory_makeDir :: "path \<Rightarrow> world \<Rightarrow> (exc + unit) \<times> world" where
  "Directory_makeDir t w =
     (let (ex1, w1) = os_path_exists t w in
      let (r1, w2) =
            (if ex1 then
               (let (isd, w') = os_path_isdir t w1 in
                if \<not> isd
                then (Inl (OutputCreateDirectory ''Specified target is a file, not a directory'' None), w')
                else (Inr (), w'))
             else (Inr (), w1))
      in case r1 of
           Inl e \<Rightarrow> (Inl e, w2)
         | Inr _ \<Rightarrow>
             (let (ex2, w3) = os_path_exists t w2 in
              if \<not> ex2 then
                (case os_makedirs t w3 of
                   (Inl e, w4) \<Rightarrow>
                     if is_OSError e
                     then (Inl (OutputCreateDirectory ''Cant create target directory:'' (Some (str_exc e))), w4)
                     else (Inl (Lib e), w4)
                 | (Inr _, w4) \<Rightarrow> (Inr (), w4))
              else (Inr (), w3)))"

text \<open>\<open>Directory.__init__(targetDir)\<close>: the new object, or the exception of \<open>_makeDir\<close>.\<close>

definition Directory_init :: "path option \<Rightarrow> world \<Rightarrow> (exc + Directory) \<times> world" where
  "Directory_init t w =
     (let self = \<lparr>targetDir = t, fileHandle = None\<rparr> in
      case t of
        None \<Rightarrow> (Inr self, w)
      | Some d \<Rightarrow>
          (case Directory_makeDir d w of
             (Inl e, w') \<Rightarrow> (Inl e, w')
           | (Inr _, w') \<Rightarrow> (Inr self, w')))"

text \<open>
  \<open>Directory.open(targetFile, mode="wb")\<close>: the handle and the updated object, or the
  exception raised. The builtin \<open>open\<close> gets \<open>targetFile\<close> as it was passed. The
  assignment to \<open>self.fileHandle\<close> comes after the file is opened, and lets go of the
  file object bound before.
\<close>

definition Directory_open :: "Directory \<Rightarrow> path \<Rightarrow> string option \<Rightarrow> world \<Rightarrow> (exc + nat) \<times> Directory \<times> world" where
  "Directory_open self targetFile mode w =
     (let m = (case mode of None \<Rightarrow> ''wb'' | Some m' \<Rightarrow> m') in
      case builtin_open targetFile m w of
        (Inr h, w') \<Rightarrow> (Inr h, self\<lparr>fileHandle := Some h\<rparr>, rebind (fileHandle self) h w')
      | (Inl e, w') \<Rightarrow>
          if is_OSError e
          then (Inl (OutputOpenException
                  (''Unable to open target file: ['' @ targetFile @ '']: '' @ str_exc e)), self, w')
          else (Inl (Lib e), self, w'))"

text \<open>
  \<open>write\<close>, \<open>flush\<close> and \<open>close\<close> forward to \<open>self.fileHandle\<close>; on None the attribute
  lookup raises \<open>AttributeError\<close>.
\<close>

definition Directory_write :: "Directory \<Rightarrow> bytes \<Rightarrow> world \<Rightarrow> (exc + nat) \<times> world" where
  "Directory_write self data w =
     (case fileHandle self of
        None \<Rightarrow> (Inl (Lib (AttributeError ''NoneType object has no attribute write'')), w)
      | Some h \<Rightarrow> propagate (file_write h data w))"

definition Directory_flush :: "Directory \<Rightarrow> world \<Rightarrow> (exc + unit) \<times> world" where
  "Directory_flush self w =
     (case fileHandle self of
        None \<Rightarrow> (Inl (Lib (AttributeError ''NoneType object has no attribute flush'')), w)
      | Some h \<Rightarrow> propagate (file_flush h w))"

definition Directory_close :: "Directory \<Rightarrow> world \<Rightarrow> (exc + unit) \<times> world" where
  "Directory_close self w =
     (case fileHandle self of
        None \<Rightarrow> (Inl (Lib (AttributeError ''NoneType object has no attribute close'')), w)
      | Some h \<Rightarrow> propagate (file_close h w))"

section \<open>\<open>outputHelper.Zip\<close>\<close>

text \<open>
  \<open>zipfile.ZipFile(sys.stdout.buffer, mode, compression)\<close>: a new archive object on the
  standard output. The archive is kept as the list of its finished members; the bytes of
  the container format are not modelled.
\<close>

definition ZIP_STORED :: nat where
  "ZIP_STORED = 0"

definition zipfile_new :: "string \<Rightarrow> nat \<Rightarrow> world \<Rightarrow> (pyexc + nat) \<times> world" where
  "zipfile_new m compression w =
     (case lib_call (ZipFileNew m compression) w of
        (Some e, w') \<Rightarrow> (Inl e, w')
      | (None, w') \<Rightarrow>
          if m \<notin> set [''r'', ''w'', ''x'', ''a'']
          then (Inl (ValueError ''ZipFile requires mode r, w, x, or a''), w')
          else
            let z = next_id w' in
            (Inr z, w'\<lparr>zips := (zips w')(z \<mapsto> \<lparr>zf_members = [], zf_writing = False, zf_closed = False\<rparr>),
                       next_id := Suc z\<rparr>))"

text \<open>
  \<open>zipfile.ZipInfo(filename=fileName)\<close> cuts the name at the first NUL byte; the date
  defaults to 1980-01-01 and the compression to \<open>ZIP_STORED\<close>.
\<close>

definition ZipInfo_new :: "string \<Rightarrow> zipinfo" where
  "ZipInfo_new fileName =
     \<lparr>zi_filename = takeWhile (\<lambda>c. c \<noteq> CHR 0x00) fileName,
      zi_date_time = (1980, 1, 1, 0, 0, 0),
      zi_compress_type = ZIP_STORED\<rparr>"

definition datetime_now :: "world \<Rightarrow> datetime \<times> world" where
  "datetime_now w = (clock w (length (oslog w)), snd (lib_call DatetimeNow w))"

text \<open>\<open>now.replace(microsecond=0).timetuple()\<close>, the six fields that \<open>ZipInfo\<close> reads.\<close>

definition replace_microsecond_0_timetuple :: "datetime \<Rightarrow> nat \<times> nat \<times> nat \<times> nat \<times> nat \<times> nat" where
  "replace_microsecond_0_timetuple t = (case t of (y, mo, d, h, mi, s, us) \<Rightarrow> (y, mo, d, h, mi, s))"

text \<open>
  \<open>ZipFile.open(zinfo, mode, force_zip64)\<close>. None of its own refusals is a
  \<open>zipfile.error\<close>: a mode other than \<open>r\<close> and \<open>w\<close>, a closed archive and a second
  write handle are \<open>ValueError\<close>; reading from the unseekable output stream is
  \<open>io.UnsupportedOperation\<close>, an \<open>OSError\<close>.
\<close>

definition zipfile_open :: "nat \<Rightarrow> zipinfo \<Rightarrow> string \<Rightarrow> bool \<Rightarrow> world \<Rightarrow> (pyexc + nat) \<times> world" where
  "zipfile_open z zi m force w =
     (case lib_call (ZipFileOpen z zi m force) w of
        (Some e, w') \<Rightarrow> (Inl e, w')
      | (None, w') \<Rightarrow>
          if m \<noteq> ''r'' \<and> m \<noteq> ''w'' then (Inl (ValueError ''open() requires mode r or w''), w')
          else
            (case zips w' z of
               None \<Rightarrow> (Inl (ValueError ''Attempt to use ZIP archive that was already closed''), w')
             | Some zf \<Rightarrow>
                 if zf_closed zf
                 then (Inl (ValueError ''Attempt to use ZIP archive that was already closed''), w')
                 else if zf_writing zf
                 then (Inl (ValueError ''another write handle is open on the ZIP file''), w')
                 else if m = ''r'' then (Inl (OSError ''underlying stream is not seekable''), w')
                 else
                   let h = next_id w' in
                   (Inr h,
                    w'\<lparr>zips := (zips w')(z \<mapsto> zf\<lparr>zf_writing := True\<rparr>),
                       zwriters := (zwriters w')(h \<mapsto>
                          \<lparr>zw_zip = z, zw_info = zi, zw_force_zip64 = force, zw_data = [], zw_closed = False\<rparr>),
                       next_id := Suc h\<rparr>)))"

text \<open>
  The member handle: \<open>write\<close> appends and returns the number of bytes; \<open>close\<close> adds the
  member to the archive and releases the archive's write lock, once.
\<close>

definition zipmember_write :: "nat \<Rightarrow> bytes \<Rightarrow> world \<Rightarrow> (pyexc + nat) \<times> world" where
  "zipmember_write h bs w =
     (case lib_call (ZipWrite h bs) w of
        (Some e, w') \<Rightarrow> (Inl e, w')
      | (None, w') \<Rightarrow>
          (case zwriters w' h of
             None \<Rightarrow> (Inl (ValueError ''I/O operation on closed file.''), w')
           | Some zw \<Rightarrow>
               if zw_closed zw then (Inl (ValueError ''I/O operation on closed file.''), w')
               else (Inr (length bs), w'\<lparr>zwriters := (zwriters w')(h \<mapsto> zw\<lparr>zw_data := zw_data zw @ bs\<rparr>)\<rparr>)))"

definition zipmember_close :: "nat \<Rightarrow> world \<Rightarrow> (pyexc + unit) \<times> world" where
  "zipmember_close h w =
     (case lib_call (ZipMemberClose h) w of
        (Some e, w') \<Rightarrow> (Inl e, w')
      | (None, w') \<Rightarrow>
          (case zwriters w' h of
             None \<Rightarrow> (Inr (), w')
           | Some zw \<Rightarrow>
               if zw_closed zw then (Inr (), w')
               else
                 (Inr (),
                  w'\<lparr>zwriters := (zwriters w')(h \<mapsto> zw\<lparr>zw_closed := True\<rparr>),
                     zips := (case zips w' (zw_zip zw) of
                                None \<Rightarrow> zips w'
                              | Some zf \<Rightarrow> (zips w')(zw_zip zw \<mapsto>
                                   zf\<lparr>zf_members := zf_members zf @ [(zw_info zw, zw_data zw)],
                                      zf_writing := False\<rparr>))\<rparr>)))"

text \<open>
  \<open>ZipFile.close()\<close> finalizes the archive. The class \<open>Zip\<close> never calls it; the
  interpreter does when the object is collected (\<open>ZipFile.__del__\<close>).
\<close>

definition zipfile_close :: "nat \<Rightarrow> world \<Rightarrow> (pyexc + unit) \<times> world" where
  "zipfile_close z w =
     (case lib_call (ZipFileClose z) w of
        (Some e, w') \<Rightarrow> (Inl e, w')
      | (None, w') \<Rightarrow>
          (case zips w' z of
             None \<Rightarrow> (Inr (), w')
           | Some zf \<Rightarrow>
               if zf_closed zf then (Inr (), w')
               else if zf_writing zf
               then (Inl (ValueError ''an open writing handle is on the ZIP file''), w')
               else (Inr (), w'\<lparr>zips := (zips w')(z \<mapsto> zf\<lparr>zf_closed := True\<rparr>)\<rparr>)))"

text \<open>Reading a member of the finalized archive by name: the last member of that name.\<close>

definition zip_read_back :: "world \<Rightarrow> nat \<Rightarrow> string \<Rightarrow> bytes option" where
  "zip_read_back w z name =
     (case zips w z of
        None \<Rightarrow> None
      | Some zf \<Rightarrow>
          if \<not> zf_closed zf then None
          else (case filter (\<lambda>m. zi_filename (fst m) = name) (zf_members zf) of
                  [] \<Rightarrow> None
                | m # ms \<Rightarrow> Some (snd (last (m # ms)))))"

record Zip =
  zipStream :: "nat option"
  zipFileStream :: "nat option"

text \<open>\<open>Zip.__init__()\<close>.\<close>

definition Zip_init :: "world \<Rightarrow> (exc + Zip) \<times> world" where
  "Zip_init w =
     (let self = \<lparr>zipStream = None, zipFileStream = None\<rparr> in
      case zipfile_new ''x'' ZIP_STORED w of
        (Inr z, w') \<Rightarrow> (Inr (self\<lparr>zipStream := Some z\<rparr>), w')
      | (Inl e, w') \<Rightarrow>
          if is_zipfile_error e
          then (Inl (OutputOpenException (''Unable to open zip stream: '' @ str_exc e)), w')
          else (Inl (Lib e), w'))"

text \<open>
  \<open>Zip.open(fileName, mode="w")\<close>; the trailing \<open>return False\<close> is unreachable. The
  member handle bound before is closed whenever \<open>ZipFile.open\<close> succeeds, the archive
  allowing one write handle at a time, so letting go of it changes nothing.
\<close>

definition Zip_open :: "Zip \<Rightarrow> string \<Rightarrow> string option \<Rightarrow> world \<Rightarrow> (exc + nat) \<times> Zip \<times> world" where
  "Zip_open self fileName mode w =
     (let m = (case mode of None \<Rightarrow> ''w'' | Some m' \<Rightarrow> m');
          zipFile = ZipInfo_new fileName;
          (now, w1) = datetime_now w;
          zipFile = zipFile\<lparr>zi_date_time := replace_microsecond_0_timetuple now\<rparr>;
          zipFile = zipFile\<lparr>zi_compress_type := ZIP_STORED\<rparr>
      in case zipStream self of
           None \<Rightarrow> (Inl (Lib (AttributeError ''NoneType object has no attribute open'')), self, w1)
         | Some z \<Rightarrow>
             (case zipfile_open z zipFile m True w1 of
                (Inr h, w2) \<Rightarrow> (Inr h, self\<lparr>zipFileStream := Some h\<rparr>, w2)
              | (Inl e, w2) \<Rightarrow>
                  if is_zipfile_error e
                  then (Inl (OutputOpenException (''Unable to open zip stream: '' @ str_exc e)), self, w2)
                  else (Inl (Lib e), self, w2)))"

definition Zip_close :: "Zip \<Rightarrow> world \<Rightarrow> (exc + unit) \<times> world" where
  "Zip_close self w =
     (case zipFileStream self of
        None \<Rightarrow> (Inl (Lib (AttributeError ''NoneType object has no attribute close'')), w)
      | Some h \<Rightarrow> propagate (zipmember_close h w))"

definition Zip_write :: "Zip \<Rightarrow> bytes \<Rightarrow> world \<Rightarrow> (exc + nat) \<times> world" where
  "Zip_write self data w =
     (case zipFileStream self of
        None \<Rightarrow> (Inl (Lib (AttributeError ''NoneType object has no attribute write'')), w)
      | Some h \<Rightarrow> propagate (zipmember_write h data w))"

section \<open>The sink: one of the two classes, called by method name\<close>

datatype sink = DirectorySink Directory | ZipSink Zip

text \<open>The methods each class defines, in the order of the source.\<close>

fun class_methods :: "sink \<Rightarrow> string list" where
  "class_methods (DirectorySink _) = [''__init__'', ''_makeDir'', ''open'', ''write'', ''flush'', ''close'']"
| "class_methods (ZipSink _) = [''__init__'', ''open'', ''close'', ''write'']"

text \<open>
  Calling a method on a sink: the class's method when it defines one of that name,
  Python's \<open>AttributeError\<close> otherwise.
\<close>

fun sink_open :: "sink \<Rightarrow> string \<Rightarrow> string option \<Rightarrow> world \<Rightarrow> (exc + nat) \<times> sink \<times> world" where
  "sink_open (DirectorySink d) name mode w =
     (case Directory_open d name mode w of (r, d', w') \<Rightarrow> (r, DirectorySink d', w'))"
| "sink_open (ZipSink z) name mode w =
     (case Zip_open z name mode w of (r, z', w') \<Rightarrow> (r, ZipSink z', w'))"

fun sink_write :: "sink \<Rightarrow> bytes \<Rightarrow> world \<Rightarrow> (exc + nat) \<times> world" where
  "sink_write (DirectorySink d) data w = Directory_write d data w"
| "sink_write (ZipSink z) data w = Zip_write z data w"

fun sink_flush :: "sink \<Rightarrow> world \<Rightarrow> (exc + unit) \<times> world" where
  "sink_flush (DirectorySink d) w = Directory_flush d w"
| "sink_flush (ZipSink z) w = (Inl (Lib (AttributeError ''Zip object has no attribute flush'')), w)"

fun sink_close :: "sink \<Rightarrow> world \<Rightarrow> (exc + unit) \<times> world" where
  "sink_close (DirectorySink d) w = Directory_close d w"
| "sink_close (ZipSink z) w = Zip_close z w"

text \<open>
  The producer's loop over the chunks of one entry: \<open>write\<close> for each chunk in turn,
  stopping at the first exception; the result is the list of returned counts.
\<close>

fun sink_write_all :: "sink \<Rightarrow> bytes list \<Rightarrow> world \<Rightarrow> (exc + nat list) \<times> world" where
  "sink_write_all s [] w = (Inr [], w)"
| "sink_write_all s (c # cs) w =
     (case sink_write s c w of
        (Inl e, w') \<Rightarrow> (Inl e, w')
      | (Inr k, w') \<Rightarrow>
          (case sink_write_all s cs w' of
             (Inl e, w'') \<Rightarrow> (Inl e, w'')
           | (Inr ks, w'') \<Rightarrow> (Inr (k # ks), w'')))"

section \<open>The network seen by \<open>sshutil.py\<close>\<close>

text \<open>
  The module calls paramiko: \<open>SSHClient()\<close> and its \<open>load_system_host_keys\<close>,
  \<open>set_missing_host_key_policy\<close>, \<open>connect\<close>, \<open>get_transport\<close>, \<open>exec_command\<close> and
  \<open>close\<close>; \<open>SFTPClient.from_transport\<close> and the \<open>stat\<close>, \<open>get\<close>, \<open>put\<close> and \<open>close\<close>
  of the sub-channel it returns. Every call is appended to \<open>sshlog\<close> with its arguments;
  a call raises what \<open>sshfault\<close> gives for its position in the log. The remote host's
  answer to a command is \<open>exec_reply\<close> at that position: exit status, standard error,
  standard output. Each derived sub-channel gets the next number \<open>nchan\<close>, each
  \<open>SSHClient\<close> the next number \<open>nclient\<close>. \<open>logging\<close> records level and message.
\<close>

datatype sshcall =
    SSHClientNew
  | LoadSystemHostKeys nat
  | SetMissingHostKeyPolicy nat string
  | SSHConnect nat string string nat
  | GetTransport nat
  | SFTPFromTransport nat
  | SFTPStat nat path
  | SFTPGet nat path path
  | SFTPPut nat path path
  | SFTPClose nat
  | ExecCommand nat string
  | SSHClose nat

datatype loglevel = DEBUG | INFO | WARNING

record net =
  sshlog :: "sshcall list"
  sshfault :: "nat \<Rightarrow> pyexc option"
  exec_reply :: "nat \<Rightarrow> string \<Rightarrow> int \<times> bytes \<times> bytes"
  utf8_valid :: "bytes \<Rightarrow> bool"
  nchan :: nat
  nclient :: nat
  closed_clients :: "nat list"
  logging :: "(loglevel \<times> string) list"

definition ssh_call :: "sshcall \<Rightarrow> net \<Rightarrow> pyexc option \<times> net" where
  "ssh_call c n = (sshfault n (length (sshlog n)), n\<lparr>sshlog := sshlog n @ [c]\<rparr>)"

definition log_msg :: "loglevel \<Rightarrow> string \<Rightarrow> net \<Rightarrow> net" where
  "log_msg l m n = n\<lparr>logging := logging n @ [(l, m)]\<rparr>"

text \<open>A library call that returns nothing.\<close>

definition ssh_unit_call :: "sshcall \<Rightarrow> net \<Rightarrow> (pyexc + unit) \<times> net" where
  "ssh_unit_call c n = (case ssh_call c n of (Some e, n') \<Rightarrow> (Inl e, n') | (None, n') \<Rightarrow> (Inr (), n'))"

definition SSHClient_new :: "net \<Rightarrow> (pyexc + nat) \<times> net" where
  "SSHClient_new n =
     (case ssh_call SSHClientNew n of
        (Some e, n') \<Rightarrow> (Inl e, n')
      | (None, n') \<Rightarrow> (Inr (nclient n'), n'\<lparr>nclient := Suc (nclient n')\<rparr>))"

text \<open>\<open>get_transport()\<close> is None once the client is closed.\<close>

definition ssh_get_transport :: "nat \<Rightarrow> net \<Rightarrow> (pyexc + nat option) \<times> net" where
  "ssh_get_transport c n =
     (case ssh_call (GetTransport c) n of
        (Some e, n') \<Rightarrow> (Inl e, n')
      | (None, n') \<Rightarrow> (Inr (if c \<in> set (closed_clients n') then None else Some c), n'))"

text \<open>
  \<open>SFTPClient.from_transport(t)\<close> opens a new session channel on the transport and
  starts the sftp subsystem on it; on None it fails with \<open>AttributeError\<close>.
\<close>

definition SFTPClient_from_transport :: "nat option \<Rightarrow> net \<Rightarrow> (pyexc + nat option) \<times> net" where
  "SFTPClient_from_transport t n =
     (case t of
        None \<Rightarrow> (Inl (AttributeError ''NoneType object has no attribute open_session''), n)
      | Some c \<Rightarrow>
          (case ssh_call (SFTPFromTransport c) n of
             (Some e, n') \<Rightarrow> (Inl e, n')
           | (None, n') \<Rightarrow> (Inr (Some (nchan n')), n'\<lparr>nchan := Suc (nchan n')\<rparr>)))"

definition ssh_close :: "nat \<Rightarrow> net \<Rightarrow> (pyexc + unit) \<times> net" where
  "ssh_close c n =
     (case ssh_call (SSHClose c) n of
        (Some e, n') \<Rightarrow> (Inl e, n')
      | (None, n') \<Rightarrow> (Inr (), n'\<lparr>closed_clients := closed_clients n' @ [c]\<rparr>))"

definition ssh_exec_command :: "nat \<Rightarrow> string \<Rightarrow> net \<Rightarrow> (pyexc + int \<times> bytes \<times> bytes) \<times> net" where
  "ssh_exec_command c cmd n =
     (case ssh_call (ExecCommand c cmd) n of
        (Some e, n') \<Rightarrow> (Inl e, n')
      | (None, n') \<Rightarrow> (Inr (exec_reply n (length (sshlog n)) cmd), n'))"

text \<open>\<open>bytes.strip()\<close> removes ASCII whitespace at both ends.\<close>

definition is_ascii_space :: "char \<Rightarrow> bool" where
  "is_ascii_space c = (c \<in> set [CHR '' '', CHR 0x09, CHR 0x0A, CHR 0x0B, CHR 0x0C, CHR 0x0D])"

definition strip :: "bytes \<Rightarrow> bytes" where
  "strip bs = rev (dropWhile is_ascii_space (rev (dropWhile is_ascii_space bs)))"

text \<open>
  \<open>bytes.decode()\<close>: a \<open>str\<close> is kept as its UTF-8 bytes, so decoding returns the bytes
  when they are valid UTF-8 and raises otherwise.
\<close>

definition decode :: "net \<Rightarrow> bytes \<Rightarrow> pyexc + string" where
  "decode n bs = (if utf8_valid n bs then Inr bs else Inl (UnicodeDecodeError ''invalid utf-8''))"

text \<open>Python's truth value of an optional string: None and the empty string are false.\<close>

fun truthy :: "string option \<Rightarrow> bool" where
  "truthy None = False"
| "truthy (Some s) = (s \<noteq> [])"

section \<open>\<open>sshutil.Client\<close>\<close>

datatype Mode = UPLOAD | DOWNLOAD

datatype bound_copy = bound_copyFrom | bound_copyTo

record Client =
  client :: "nat option"
  host :: string
  user :: string
  copy :: bound_copy
  connection :: nat

text \<open>
  Modelled from the spec: \<open>processInfo\<close> of \<open>libvirtnbdbackup.common.common\<close>, a module
  that is not among the sources. It is the specification's ProcessResult, \<open>{pid: optional
  string, logFile: optional path, stderr: string, stdout: string}\<close>, with the four fields
  in the order in which \<open>run\<close> passes them.
\<close>

record processInfo =
  pid :: "string option"
  logFile :: "string option"
  err :: string
  out :: string

text \<open>\<open>Client.connect\<close>: the whole body is inside the \<open>try\<close>.\<close>

definition connect_timeout :: nat where
  "connect_timeout = 5000"

definition connect_body :: "string \<Rightarrow> string \<Rightarrow> net \<Rightarrow> (pyexc + nat) \<times> net" where
  "connect_body h u n =
     (case SSHClient_new n of
        (Inl e, n1) \<Rightarrow> (Inl e, n1)
      | (Inr c, n1) \<Rightarrow>
          (case ssh_unit_call (LoadSystemHostKeys c) n1 of
             (Inl e, n2) \<Rightarrow> (Inl e, n2)
           | (Inr _, n2) \<Rightarrow>
               (case ssh_unit_call (SetMissingHostKeyPolicy c ''AutoAddPolicy'') n2 of
                  (Inl e, n3) \<Rightarrow> (Inl e, n3)
                | (Inr _, n3) \<Rightarrow>
                    (case ssh_unit_call (SSHConnect c h u connect_timeout) n3 of
                       (Inl e, n4) \<Rightarrow> (Inl e, n4)
                     | (Inr _, n4) \<Rightarrow> (Inr c, n4)))))"

definition connect :: "string \<Rightarrow> string \<Rightarrow> net \<Rightarrow> (exc + nat) \<times> net" where
  "connect h u n =
     (let n0 = log_msg INFO (''Connecting remote system via ssh, username: ['' @ u @ '']'') n in
      case connect_body h u n0 of
        (Inr c, n') \<Rightarrow> (Inr c, n')
      | (Inl e, n') \<Rightarrow>
          if is_AuthenticationException e
          then (Inl (sshutilError
                  (''AuthenticationException occurred; did you remember to generate an SSH key? '' @ str_exc e)), n')
          else if is_Exception e
          then (Inl (sshutilError (''Unknown exception occured: '' @ str_exc e)), n')
          else (Inl (Lib e), n'))"

text \<open>\<open>Client.__init__(host, user, mode=Mode.DOWNLOAD)\<close>.\<close>

definition Client_init :: "string \<Rightarrow> string \<Rightarrow> Mode option \<Rightarrow> net \<Rightarrow> (exc + Client) \<times> net" where
  "Client_init h u mode n =
     (let m = (case mode of None \<Rightarrow> DOWNLOAD | Some m' \<Rightarrow> m');
          cp = (if m = UPLOAD then bound_copyTo else bound_copyFrom)
      in case connect h u n of
           (Inl e, n') \<Rightarrow> (Inl e, n')
         | (Inr c, n') \<Rightarrow> (Inr \<lparr>client = None, host = h, user = u, copy = cp, connection = c\<rparr>, n'))"

text \<open>The property \<open>Client.sftp\<close>: evaluated anew wherever the source writes \<open>self.sftp\<close>.\<close>

definition sftp :: "Client \<Rightarrow> net \<Rightarrow> (pyexc + nat option) \<times> net" where
  "sftp self n =
     (case ssh_get_transport (connection self) n of
        (Inl e, n1) \<Rightarrow> (Inl e, n1)
      | (Inr t, n1) \<Rightarrow> SFTPClient_from_transport t n1)"

text \<open>
  A method call \<open>self.sftp.m(...)\<close>: the property, then the sub-channel's method, which
  is the library call \<open>c\<close> of the channel; on None the lookup of \<open>m\<close> fails.
\<close>

definition sftp_method :: "Client \<Rightarrow> (nat \<Rightarrow> sshcall) \<Rightarrow> net \<Rightarrow> (pyexc + unit) \<times> net" where
  "sftp_method self c n =
     (case sftp self n of
        (Inl e, n1) \<Rightarrow> (Inl e, n1)
      | (Inr None, n1) \<Rightarrow> (Inl (AttributeError ''NoneType object has no such attribute''), n1)
      | (Inr (Some ch), n1) \<Rightarrow> ssh_unit_call (c ch) n1)"

text \<open>\<open>Client.exists(filepath)\<close>.\<close>

definition exists :: "Client \<Rightarrow> path \<Rightarrow> net \<Rightarrow> (exc + bool) \<times> net" where
  "exists self filepath n =
     (case sftp_method self (\<lambda>ch. SFTPStat ch filepath) n of
        (Inr _, n') \<Rightarrow> (Inr True, n')
      | (Inl e, n') \<Rightarrow> if is_OSError e then (Inr False, n') else (Inl (Lib e), n'))"

text \<open>\<open>Client.copyFrom(filepath, localpath)\<close>; it returns None.\<close>

definition copyFrom :: "Client \<Rightarrow> path \<Rightarrow> path \<Rightarrow> net \<Rightarrow> (exc + unit) \<times> net" where
  "copyFrom self filepath localpath n =
     (let n0 = log_msg INFO (''Downloading file ['' @ filepath @ ''] to ['' @ localpath @ '']'') n in
      case sftp_method self (\<lambda>ch. SFTPGet ch filepath localpath) n0 of
        (Inr _, n') \<Rightarrow> (Inr (), n')
      | (Inl e, n') \<Rightarrow>
          if is_SSHException e
          then (Inr (), log_msg WARNING (''Error during file copy: ['' @ str_exc e @ '']'') n')
          else (Inl (Lib e), n'))"

text \<open>\<open>Client.copyTo(localpath, remotepath)\<close>; it returns None.\<close>

definition copyTo :: "Client \<Rightarrow> path \<Rightarrow> path \<Rightarrow> net \<Rightarrow> (exc + unit) \<times> net" where
  "copyTo self localpath remotepath n =
     (let n0 = log_msg INFO (''Uploading file ['' @ localpath @ ''] to ['' @ remotepath @ '']'') n in
      case sftp_method self (\<lambda>ch. SFTPPut ch localpath remotepath) n0 of
        (Inr _, n') \<Rightarrow> (Inr (), n')
      | (Inl e, n') \<Rightarrow>
          if is_SSHException e
          then (Inr (), log_msg WARNING (''Error during file copy: ['' @ str_exc e @ '']'') n')
          else (Inl (Lib e), n'))"

text \<open>\<open>Client._execute(cmd)\<close>: exit status, decoded stripped stderr, decoded stripped stdout.\<close>

definition Client_execute :: "Client \<Rightarrow> string \<Rightarrow> net \<Rightarrow> (pyexc + int \<times> string \<times> string) \<times> net" where
  "Client_execute self cmd n =
     (case ssh_exec_command (connection self) cmd n of
        (Inl e, n') \<Rightarrow> (Inl e, n')
      | (Inr (ret, stderr, stdout), n') \<Rightarrow>
          (case decode n' (strip stderr) of
             Inl e \<Rightarrow> (Inl e, n')
           | Inr err' \<Rightarrow>
               (case decode n' (strip stdout) of
                  Inl e \<Rightarrow> (Inl e, n')
                | Inr out' \<Rightarrow> (Inr (ret, err', out'), n'))))"

text \<open>
  \<open>Client.run(cmd, pidFile=None, logFile=None)\<close>. In \<open>_, _, err = self._execute(...)\<close>
  the third component, the command's standard output, is the one that is kept.
\<close>

definition run :: "Client \<Rightarrow> string \<Rightarrow> string option \<Rightarrow> string option \<Rightarrow> net \<Rightarrow> (exc + processInfo) \<times> net" where
  "run self cmd pidFile' logFile' n =
     (let n0 = log_msg DEBUG (''Executing command: ['' @ cmd @ '']'') n in
      case Client_execute self cmd n0 of
        (Inl e, n1) \<Rightarrow> (Inl (Lib e), n1)
      | (Inr (ret, err1, out1), n1) \<Rightarrow>
          if ret \<noteq> 0 then
            (if truthy logFile' then
               (case Client_execute self (''cat '' @ the logFile') n1 of
                  (Inl e, n2) \<Rightarrow> (Inl (Lib e), n2)
                | (Inr (_, _, err2), n2) \<Rightarrow>
                    (Inl (sshutilError (''Error during remote command: ['' @ cmd @ '']: ['' @ err2 @ '']'')), n2))
             else (Inl (sshutilError (''Error during remote command: ['' @ cmd @ '']: ['' @ err1 @ '']'')), n1))
          else if truthy pidFile' then
            (let n2 = log_msg DEBUG (''PIDfile: ['' @ the pidFile' @ '']'') n1 in
             case Client_execute self (''cat '' @ the pidFile') n2 of
               (Inl e, n3) \<Rightarrow> (Inl (Lib e), n3)
             | (Inr (_, _, pid'), n3) \<Rightarrow>
                 (Inr \<lparr>pid = Some pid', logFile = logFile', err = err1, out = out1\<rparr>,
                  log_msg DEBUG (''PID: ['' @ pid' @ '']'') n3))
          else (Inr \<lparr>pid = None, logFile = logFile', err = err1, out = out1\<rparr>, n1))"

text \<open>
  \<open>Client.disconnect()\<close>: \<open>self.sftp\<close> is written twice, in the test and in the call of
  \<open>close\<close>; a sub-channel object and the connection object are both true.
\<close>

definition disconnect :: "Client \<Rightarrow> net \<Rightarrow> (exc + unit) \<times> net" where
  "disconnect self n =
     (case sftp self n of
        (Inl e, n1) \<Rightarrow> (Inl (Lib e), n1)
      | (Inr t, n1) \<Rightarrow>
          (case (if t \<noteq> None then sftp_method self SFTPClose n1 else (Inr (), n1)) of
             (Inl e, n2) \<Rightarrow> (Inl (Lib e), n2)
           | (Inr _, n2) \<Rightarrow> propagate (ssh_close (connection self) n2)))"

section \<open>Notions used to state the properties\<close>

text \<open>The sub-channel a library call works on, for the calls that work on one.\<close>

fun chan_of :: "sshcall \<Rightarrow> nat option" where
  "chan_of (SFTPStat ch _) = Some ch"
| "chan_of (SFTPGet ch _ _) = Some ch"
| "chan_of (SFTPPut ch _ _) = Some ch"
| "chan_of (SFTPClose ch) = Some ch"
| "chan_of _ = None"

text \<open>The library calls made between two states of the network.\<close>

definition new_calls :: "net \<Rightarrow> net \<Rightarrow> sshcall list" where
  "new_calls n n' = drop (length (sshlog n)) (sshlog n')"

text \<open>
  Between \<open>n\<close> and \<open>n'\<close> the log only grew, and every sub-channel that a new call
  worked on was derived in between: its number is none of those handed out before \<open>n\<close>.
\<close>

definition chan_within :: "nat \<Rightarrow> nat \<Rightarrow> sshcall \<Rightarrow> bool" where
  "chan_within lo hi c = (case chan_of c of None \<Rightarrow> True | Some ch \<Rightarrow> lo \<le> ch \<and> ch < hi)"

definition only_fresh_channels :: "net \<Rightarrow> net \<Rightarrow> bool" where
  "only_fresh_channels n n' =
     (take (length (sshlog n)) (sshlog n') = sshlog n
      \<and> list_all (chan_within (nchan n) (nchan n')) (new_calls n n'))"

text \<open>
  The first exception, if any, that the next \<open>k\<close> library calls would raise.
\<close>

definition pending_fault :: "net \<Rightarrow> nat \<Rightarrow> pyexc option" where
  "pending_fault n k =
     (case List.find (\<lambda>x. x \<noteq> None) (map (sshfault n) [length (sshlog n) ..< length (sshlog n) + k]) of
        None \<Rightarrow> None
      | Some x \<Rightarrow> x)"

text \<open>
  No entry is open on the sink: the handle it holds, if any, is closed. This is the
  state in which the producer may open the next entry.
\<close>

fun no_entry_open :: "sink \<Rightarrow> world \<Rightarrow> bool" where
  "no_entry_open (DirectorySink d) w =
     (case fileHandle d of
        None \<Rightarrow> True
      | Some h \<Rightarrow> (case files w h of None \<Rightarrow> True | Some f \<Rightarrow> f_closed f))"
| "no_entry_open (ZipSink z) w =
     (case zipFileStream z of
        None \<Rightarrow> True
      | Some h \<Rightarrow> (case zwriters w h of None \<Rightarrow> True | Some zw \<Rightarrow> zw_closed zw))"

section \<open>Sample systems\<close>

text \<open>
  A machine with the directories \<open>/root\<close> (the working directory) and \<open>/backup\<close>, on
  which no call fails and whose caller keeps no file object, and the same machine
  refusing every call.
\<close>

definition sample_world :: world where
  "sample_world =
     \<lparr>cwd = ''/root'', nodes = [''/backup'' \<mapsto> DirNode, ''/root'' \<mapsto> DirNode], files = Map.empty,
      zips = Map.empty, zwriters = Map.empty, next_id = 3,
      clock = (\<lambda>_. (2024, 5, 17, 10, 30, 59, 123456)), oslog = [], fault = (\<lambda>_. None),
      referenced = (\<lambda>_. False), finalize_fails = (\<lambda>_. False)\<rparr>"

definition denying_world :: world where
  "denying_world = sample_world\<lparr>fault := (\<lambda>_. Some (OSError ''[Errno 13] Permission denied''))\<rparr>"

definition backup_dir :: Directory where
  "backup_dir = \<lparr>targetDir = Some ''/backup'', fileHandle = None\<rparr>"

text \<open>
  A hypervisor that answers \<open>cat /tmp/x.pid\<close> and \<open>cat /tmp/x.log\<close> with the files'
  contents, has no \<open>/tmp/none.log\<close>, fails \<open>false\<close> with a message on standard error
  and runs everything else silently; ASCII is the valid UTF-8 here. \<open>fresh_net\<close> is the network before a client
  exists, \<open>linked_net\<close> after \<open>Client('hv1', 'root')\<close>.
\<close>

definition sample_reply :: "nat \<Rightarrow> string \<Rightarrow> int \<times> bytes \<times> bytes" where
  "sample_reply i cmd =
     (if cmd = ''cat /tmp/x.pid'' then (0, [], '' 4242'' @ [CHR 0x0A])
      else if cmd = ''cat /tmp/x.log'' then (0, [], ''nbd: bind failed'' @ [CHR 0x0A])
      else if cmd = ''cat /tmp/none.log''
      then (1, ''cat: /tmp/none.log: No such file or directory'' @ [CHR 0x0A], [])
      else if cmd = ''false'' then (1, ''sh: failed'' @ [CHR 0x0A], [])
      else (0, [], []))"

definition fresh_net :: net where
  "fresh_net =
     \<lparr>sshlog = [], sshfault = (\<lambda>_. None), exec_reply = sample_reply,
      utf8_valid = list_all (\<lambda>c. of_char c < (128::nat)),
      nchan = 0, nclient = 0, closed_clients = [], logging = []\<rparr>"

definition linked_net :: net where
  "linked_net =
     fresh_net\<lparr>sshlog := [SSHClientNew, LoadSystemHostKeys 0, SetMissingHostKeyPolicy 0 ''AutoAddPolicy'',
                          SSHConnect 0 ''hv1'' ''root'' 5000],
               nclient := 1,
               logging := [(INFO, ''Connecting remote system via ssh, username: [root]'')]\<rparr>"

definition sample_client :: Client where
  "sample_client = \<lparr>client = None, host = ''hv1'', user = ''root'', copy = bound_copyFrom, connection = 0\<rparr>"

text \<open>The network on which the library call at position \<open>k\<close> of the log raises \<open>e\<close>.\<close>

definition failing_at :: "nat \<Rightarrow> pyexc \<Rightarrow> net \<Rightarrow> net" where
  "failing_at k e n = n\<lparr>sshfault := (\<lambda>i. if i = k then Some e else None)\<rparr>"


text \<open>
  The producer's cycle for one entry: \<open>open\<close> with the default mode, \<open>write\<close> for each
  chunk, then \<open>close\<close>; it stops at the first exception.
\<close>

definition sink_write_entry :: "sink \<Rightarrow> string \<Rightarrow> bytes list \<Rightarrow> world \<Rightarrow> (exc + unit) \<times> sink \<times> world" where
  "sink_write_entry s name chunks w =
     (case sink_open s name None w of
        (Inl e, s1, w1) \<Rightarrow> (Inl e, s1, w1)
      | (Inr h, s1, w1) \<Rightarrow>
          (case sink_write_all s1 chunks w1 of
             (Inl e, w2) \<Rightarrow> (Inl e, s1, w2)
           | (Inr ks, w2) \<Rightarrow>
               (case sink_close s1 w2 of
                  (Inl e, w3) \<Rightarrow> (Inl e, s1, w3)
                | (Inr _, w3) \<Rightarrow> (Inr (), s1, w3))))"

text \<open>
  The archive sink on the sample machine, \<open>archive_world\<close> being the machine after
  \<open>Zip()\<close>. A directory sink with an entry open whose file holds \<open>ab\<close> while \<open>cd\<close> is
  written but not flushed, and the same with the caller still holding that file object.
  A machine whose every call fails for lack of space.
\<close>

definition stdout_zip :: Zip where
  "stdout_zip = \<lparr>zipStream = Some 3, zipFileStream = None\<rparr>"

definition archive_world :: world where
  "archive_world = snd (Zip_init sample_world)"

definition writing_world :: world where
  "writing_world =
     sample_world\<lparr>nodes := (nodes sample_world)(''/root/sda.data'' \<mapsto> RegFile ''ab''),
                  files := [3 \<mapsto> \<lparr>f_path = ''/root/sda.data'', f_mode = ''wb'', f_pos = 2, f_buf = ''cd'',
                                  f_closed = False\<rparr>],
                  next_id := 4\<rparr>"

definition held_world :: world where
  "held_world = writing_world\<lparr>referenced := (\<lambda>_. True)\<rparr>"

definition writing_dir :: Directory where
  "writing_dir = \<lparr>targetDir = Some ''/backup'', fileHandle = Some 3\<rparr>"

definition disk_full :: "world \<Rightarrow> world" where
  "disk_full w = w\<lparr>fault := (\<lambda>_. Some (OSError ''[Errno 28] No space left on device''))\<rparr>"

text \<open>The sample network after one download through the sample client.\<close>

definition after_download :: net where
  "after_download = snd (copyFrom sample_client ''/var/tmp/a.xml'' ''/tmp/a.xml'' linked_net)"

section \<open>Facts about the local system\<close>

lemma abspath_cwd: "cwd w' = cwd w \<Longrightarrow> abspath w' p = abspath w p"
  by (cases p) (simp_all add: abspath_def)

lemma valid_mode_wb: "valid_mode ''wb''" "mode_kinds ''wb'' = ''w''"
  by (simp_all add: valid_mode_def mode_kinds_def)

lemma builtin_open_log: "oslog (snd (builtin_open p m w)) = oslog w @ [BuiltinOpen p m]"
  by (simp add: builtin_open_def lib_call_def Let_def split: option.splits)

lemma builtin_open_wb_Inr:
  assumes "fst (builtin_open p ''wb'' w) = Inr h"
  shows "files (snd (builtin_open p ''wb'' w)) h
           = Some \<lparr>f_path = abspath w p, f_mode = ''wb'', f_pos = 0, f_buf = [], f_closed = False\<rparr>"
    and "nodes (snd (builtin_open p ''wb'' w)) (abspath w p) = Some (RegFile [])"
    and "cwd (snd (builtin_open p ''wb'' w)) = cwd w"
  using assms
  by (auto simp: builtin_open_def lib_call_def Let_def valid_mode_wb
                 abspath_cwd[of "w\<lparr>oslog := l\<rparr>" w for l]
           split: option.splits if_splits)

lemma builtin_open_other_files:
  assumes "builtin_open p m w = (Inr h, w')" "k \<noteq> h"
  shows "files w' k = files w k"
  using assms
  by (auto simp: builtin_open_def lib_call_def Let_def split: option.splits if_splits)

lemma rebind_fields:
  "oslog (rebind old new w) = oslog w" "cwd (rebind old new w) = cwd w"
  "files (rebind old new w) new = files w new"
  by (auto simp: rebind_def finalize_file_def split: option.splits)

lemma rebind_idle:
  assumes "case old of None \<Rightarrow> True
           | Some k \<Rightarrow> k = new \<or> (case files w k of None \<Rightarrow> True | Some f \<Rightarrow> f_closed f)"
  shows "rebind old new w = w"
  using assms by (auto simp: rebind_def finalize_file_def split: option.splits)

lemma Directory_open_rebind_idle:
  assumes "no_entry_open (DirectorySink self) w" "builtin_open p m w = (Inr h, w')"
  shows "rebind (fileHandle self) h w' = w'"
proof (rule rebind_idle)
  show "case fileHandle self of None \<Rightarrow> True
        | Some k \<Rightarrow> k = h \<or> (case files w' k of None \<Rightarrow> True | Some f \<Rightarrow> f_closed f)"
  proof (cases "fileHandle self")
    case None
    then show ?thesis by simp
  next
    case (Some k)
    show ?thesis
    proof (cases "k = h")
      case True
      with Some show ?thesis by simp
    next
      case False
      from builtin_open_other_files[OF assms(2) False] assms(1) Some False
      show ?thesis by simp
    qed
  qed
qed

lemmas sample_os_simps = sample_world_def denying_world_def backup_dir_def lib_call_def abspath_def
  builtin_open_def valid_mode_def mode_kinds_def rebind_def Let_def

section \<open>Properties of \<open>outputHelper.Directory\<close>\<close>

text \<open>
  C10. Constructing the Directory sink with the target path None makes no directory check
  and creates nothing: the constructor returns the new object, never an exception (so
  never \<open>OutputCreateDirectory\<close>), and the system, with its log of calls, is as before.
\<close>

theorem Directory_init_None:
  "Directory_init None w = (Inr \<lparr>targetDir = None, fileHandle = None\<rparr>, w)"
  by (simp add: Directory_init_def)

text \<open>
  C1, as the code has it. \<open>Directory.open(targetFile)\<close> makes one library call, the
  builtin \<open>open\<close> on \<open>targetFile\<close> exactly as passed, in mode \<open>wb\<close> by default. When
  that call succeeds, the handle is stored in the object and returned, and it refers to
  the file at \<open>targetFile\<close> (resolved by the system against the working directory when
  relative), which now exists and, no entry having been open on the sink, is empty. When
  the call raises an \<open>OSError\<close>, in any mode, \<open>open\<close> raises \<open>OutputOpenException\<close>
  naming the file and the error. The target directory given at construction plays no
  part: neither the result nor the system afterwards depends on it.
\<close>

theorem Directory_open_given_path:
  "oslog (snd (snd (Directory_open self targetFile None w))) = oslog w @ [BuiltinOpen targetFile ''wb'']
   \<and> (\<forall>h. fst (Directory_open self targetFile None w) = Inr h \<longrightarrow>
         fileHandle (fst (snd (Directory_open self targetFile None w))) = Some h
       \<and> files (snd (snd (Directory_open self targetFile None w))) h
           = Some \<lparr>f_path = abspath w targetFile, f_mode = ''wb'', f_pos = 0, f_buf = [], f_closed = False\<rparr>
       \<and> (no_entry_open (DirectorySink self) w \<longrightarrow>
            read_back (snd (snd (Directory_open self targetFile None w))) targetFile = Some []))
   \<and> (\<forall>mode e. fst (builtin_open targetFile (case mode of None \<Rightarrow> ''wb'' | Some m \<Rightarrow> m) w) = Inl e \<and> is_OSError e \<longrightarrow>
         fst (Directory_open self targetFile mode w)
           = Inl (OutputOpenException (''Unable to open target file: ['' @ targetFile @ '']: '' @ str_exc e)))
   \<and> (\<forall>t mode. fst (Directory_open (self\<lparr>targetDir := t\<rparr>) targetFile mode w) = fst (Directory_open self targetFile mode w)
         \<and> snd (snd (Directory_open (self\<lparr>targetDir := t\<rparr>) targetFile mode w)) = snd (snd (Directory_open self targetFile mode w)))"
proof (intro conjI allI impI)
  show "oslog (snd (snd (Directory_open self targetFile None w))) = oslog w @ [BuiltinOpen targetFile ''wb'']"
    using builtin_open_log[of targetFile "''wb''" w]
    by (auto simp: Directory_open_def rebind_fields split: prod.splits sum.splits)
next
  fix h assume h: "fst (Directory_open self targetFile None w) = Inr h"
  obtain r w' where bo: "builtin_open targetFile ''wb'' w = (r, w')" by (cases "builtin_open targetFile ''wb'' w")
  from h bo have r: "r = Inr h"
    by (cases r) (auto simp: Directory_open_def split: if_splits)
  with bo have d: "Directory_open self targetFile None w
                     = (Inr h, self\<lparr>fileHandle := Some h\<rparr>, rebind (fileHandle self) h w')"
    by (simp add: Directory_open_def)
  from bo r have f: "fst (builtin_open targetFile ''wb'' w) = Inr h" by simp
  show "fileHandle (fst (snd (Directory_open self targetFile None w))) = Some h" by (simp add: d)
  show "files (snd (snd (Directory_open self targetFile None w))) h
           = Some \<lparr>f_path = abspath w targetFile, f_mode = ''wb'', f_pos = 0, f_buf = [], f_closed = False\<rparr>"
    using builtin_open_wb_Inr(1)[OF f] bo by (simp add: d rebind_fields)
  {
    assume n: "no_entry_open (DirectorySink self) w"
    from bo r have "builtin_open targetFile ''wb'' w = (Inr h, w')" by simp
    from Directory_open_rebind_idle[OF n this]
    have d': "Directory_open self targetFile None w = (Inr h, self\<lparr>fileHandle := Some h\<rparr>, w')"
      by (simp add: d)
    show "read_back (snd (snd (Directory_open self targetFile None w))) targetFile = Some []"
      using builtin_open_wb_Inr(2,3)[OF f] bo by (simp add: d' read_back_def abspath_cwd[of w' w])
  }
next
  fix mode e
  assume "fst (builtin_open targetFile (case mode of None \<Rightarrow> ''wb'' | Some m \<Rightarrow> m) w) = Inl e \<and> is_OSError e"
  then show "fst (Directory_open self targetFile mode w)
           = Inl (OutputOpenException (''Unable to open target file: ['' @ targetFile @ '']: '' @ str_exc e))"
    by (auto simp: Directory_open_def Let_def split: prod.splits sum.splits)
next
  fix t mode
  show "fst (Directory_open (self\<lparr>targetDir := t\<rparr>) targetFile mode w) = fst (Directory_open self targetFile mode w)"
    by (simp add: Directory_open_def Let_def split: prod.splits sum.splits)
  show "snd (snd (Directory_open (self\<lparr>targetDir := t\<rparr>) targetFile mode w)) = snd (snd (Directory_open self targetFile mode w))"
    by (simp add: Directory_open_def Let_def split: prod.splits sum.splits)
qed

text \<open>
  The theorem at work: \<open>sda.data\<close> opened on the sample machine, and on the machine
  that refuses every call.
\<close>

theorem Directory_open_given_path_witness:
  "fst (Directory_open backup_dir ''sda.data'' None sample_world) = Inr 3
   \<and> files (snd (snd (Directory_open backup_dir ''sda.data'' None sample_world))) 3
       = Some \<lparr>f_path = ''/root/sda.data'', f_mode = ''wb'', f_pos = 0, f_buf = [], f_closed = False\<rparr>
   \<and> read_back (snd (snd (Directory_open backup_dir ''sda.data'' None sample_world))) ''sda.data'' = Some []
   \<and> fst (builtin_open ''sda.data'' ''wb'' denying_world) = Inl (OSError ''[Errno 13] Permission denied'')
   \<and> fst (Directory_open backup_dir ''sda.data'' (Some ''wb'') denying_world)
       = Inl (OutputOpenException ''Unable to open target file: [sda.data]: [Errno 13] Permission denied'')"
proof -
  have h1: "fst (Directory_open backup_dir ''sda.data'' None sample_world) = Inr 3"
    by (simp add: Directory_open_def sample_os_simps)
  have h2: "fst (builtin_open ''sda.data'' (case Some ''wb'' of None \<Rightarrow> ''wb'' | Some m \<Rightarrow> m) denying_world)
              = Inl (OSError ''[Errno 13] Permission denied'')
            \<and> is_OSError (OSError ''[Errno 13] Permission denied'')"
    by (simp add: sample_os_simps)
  have a: "abspath sample_world ''sda.data'' = ''/root/sda.data''"
    by (simp add: sample_os_simps)
  have n: "no_entry_open (DirectorySink backup_dir) sample_world"
    by (simp add: backup_dir_def)
  from Directory_open_given_path[of backup_dir "''sda.data''" sample_world] h1 a n
  have p1: "files (snd (snd (Directory_open backup_dir ''sda.data'' None sample_world))) 3
       = Some \<lparr>f_path = ''/root/sda.data'', f_mode = ''wb'', f_pos = 0, f_buf = [], f_closed = False\<rparr>
     \<and> read_back (snd (snd (Directory_open backup_dir ''sda.data'' None sample_world))) ''sda.data'' = Some []"
    by simp
  from Directory_open_given_path[of backup_dir "''sda.data''" denying_world] h2
  have p2: "fst (Directory_open backup_dir ''sda.data'' (Some ''wb'') denying_world)
       = Inl (OutputOpenException (''Unable to open target file: ['' @ ''sda.data'' @ '']: ''
               @ str_exc (OSError ''[Errno 13] Permission denied'')))"
    by blast
  from h1 h2 p1 p2 show ?thesis by simp
qed

text \<open>
  C1 as stated fails: a sink constructed on \<open>/backup\<close>, asked to open \<open>sda.data\<close> while
  the working directory is \<open>/root\<close>, creates \<open>/root/sda.data\<close>; nothing named
  \<open>sda.data\<close> appears under \<open>/backup\<close>.
\<close>

theorem Directory_open_under_targetDir_counterexample:
  "fst (Directory_init (Some ''/backup'') sample_world) = Inr backup_dir
   \<and> fst (Directory_open backup_dir ''sda.data'' None (snd (Directory_init (Some ''/backup'') sample_world))) = Inr 3
   \<and> map_option f_path (files (snd (snd (Directory_open backup_dir ''sda.data'' None
         (snd (Directory_init (Some ''/backup'') sample_world))))) 3) = Some ''/root/sda.data''
   \<and> nodes (snd (snd (Directory_open backup_dir ''sda.data'' None
         (snd (Directory_init (Some ''/backup'') sample_world))))) ''/root/sda.data'' = Some (RegFile [])
   \<and> nodes (snd (snd (Directory_open backup_dir ''sda.data'' None
         (snd (Directory_init (Some ''/backup'') sample_world))))) ''/backup/sda.data'' = None"
  by (simp add: Directory_init_def Directory_makeDir_def os_path_exists_def os_path_isdir_def
                Directory_open_def sample_os_simps)

section \<open>Properties of \<open>flush\<close>\<close>

lemma file_flush_ok:
  assumes "files w h = Some f" "\<not> f_closed f" "fault w (length (oslog w)) = None"
  shows "file_flush h w =
           (Inr (), w\<lparr>oslog := oslog w @ [FileFlush h],
                      nodes := flush_node f (nodes w),
                      files := (files w)(h \<mapsto> flushed f (nodes w))\<rparr>)"
  using assms by (simp add: file_flush_def lib_call_def)

lemma flush_node_at:
  "flush_node f m (f_path f)
     = Some (RegFile (write_at (write_pos f (file_content m (f_path f))) (f_buf f)
                        (file_content m (f_path f))))"
  by (simp add: flush_node_def)

lemma write_at_end: "write_at (length old) bs old = old @ bs"
  by (simp add: write_at_def)

text \<open>
  C8, as the code has it. Of the two classes only \<open>Directory\<close> defines \<open>flush\<close>; \<open>Zip\<close>
  defines \<open>open\<close>, \<open>close\<close> and \<open>write\<close>. \<open>Directory.flush\<close> forwards to the open file
  object: whatever its \<open>flush\<close> raises reaches the caller unchanged, and when it succeeds
  the bytes written so far and still buffered are in the file, written at the
  descriptor's offset, which appends them when the descriptor is at the end of the file,
  and the buffer is empty.
\<close>

theorem flush_Directory_only:
  "''flush'' \<in> set (class_methods (DirectorySink d))
   \<and> ''flush'' \<notin> set (class_methods (ZipSink z))
   \<and> (\<forall>h e w'. fileHandle d = Some h \<and> file_flush h w = (Inl e, w') \<longrightarrow>
         sink_flush (DirectorySink d) w = (Inl (Lib e), w'))
   \<and> (\<forall>h f. fileHandle d = Some h \<and> files w h = Some f \<and> \<not> f_closed f \<and> fault w (length (oslog w)) = None \<longrightarrow>
         fst (sink_flush (DirectorySink d) w) = Inr ()
       \<and> nodes (snd (sink_flush (DirectorySink d) w)) (f_path f)
           = Some (RegFile (write_at (write_pos f (file_content (nodes w) (f_path f))) (f_buf f)
                              (file_content (nodes w) (f_path f))))
       \<and> (write_pos f (file_content (nodes w) (f_path f)) = length (file_content (nodes w) (f_path f)) \<longrightarrow>
            nodes (snd (sink_flush (DirectorySink d) w)) (f_path f)
              = Some (RegFile (file_content (nodes w) (f_path f) @ f_buf f)))
       \<and> map_option f_buf (files (snd (sink_flush (DirectorySink d) w)) h) = Some [])"
proof (intro conjI allI impI)
  show "''flush'' \<in> set (class_methods (DirectorySink d))" by simp
  show "''flush'' \<notin> set (class_methods (ZipSink z))" by simp
next
  fix h e w'
  assume "fileHandle d = Some h \<and> file_flush h w = (Inl e, w')"
  then show "sink_flush (DirectorySink d) w = (Inl (Lib e), w')"
    by (simp add: Directory_flush_def propagate_def)
next
  fix h f
  assume a: "fileHandle d = Some h \<and> files w h = Some f \<and> \<not> f_closed f \<and> fault w (length (oslog w)) = None"
  then have fl: "Directory_flush d w =
           (Inr (), w\<lparr>oslog := oslog w @ [FileFlush h],
                      nodes := flush_node f (nodes w),
                      files := (files w)(h \<mapsto> flushed f (nodes w))\<rparr>)"
    using file_flush_ok[of w h f] by (simp add: Directory_flush_def propagate_def)
  show "fst (sink_flush (DirectorySink d) w) = Inr ()" by (simp add: fl)
  show g: "nodes (snd (sink_flush (DirectorySink d) w)) (f_path f)
           = Some (RegFile (write_at (write_pos f (file_content (nodes w) (f_path f))) (f_buf f)
                              (file_content (nodes w) (f_path f))))"
    by (simp add: fl flush_node_at)
  show "map_option f_buf (files (snd (sink_flush (DirectorySink d) w)) h) = Some []"
    by (simp add: fl flushed_def)
  assume "write_pos f (file_content (nodes w) (f_path f)) = length (file_content (nodes w) (f_path f))"
  with g show "nodes (snd (sink_flush (DirectorySink d) w)) (f_path f)
              = Some (RegFile (file_content (nodes w) (f_path f) @ f_buf f))"
    by (simp only: write_at_end)
qed

text \<open>
  The theorem at work: flushing the sink that has \<open>cd\<close> buffered behind \<open>ab\<close>, and
  flushing it when the device is full.
\<close>

theorem flush_Directory_only_witness:
  "fst (sink_flush (DirectorySink writing_dir) writing_world) = Inr ()
   \<and> nodes (snd (sink_flush (DirectorySink writing_dir) writing_world)) ''/root/sda.data'' = Some (RegFile ''abcd'')
   \<and> map_option f_buf (files (snd (sink_flush (DirectorySink writing_dir) writing_world)) 3) = Some []
   \<and> fst (file_flush 3 (disk_full writing_world)) = Inl (OSError ''[Errno 28] No space left on device'')
   \<and> fst (sink_flush (DirectorySink writing_dir) (disk_full writing_world))
       = Inl (Lib (OSError ''[Errno 28] No space left on device''))"
proof -
  let ?f = "\<lparr>f_path = ''/root/sda.data'', f_mode = ''wb'', f_pos = 2, f_buf = ''cd'', f_closed = False\<rparr>"
  have h1: "fileHandle writing_dir = Some 3 \<and> files writing_world 3 = Some ?f \<and> \<not> f_closed ?f
            \<and> fault writing_world (length (oslog writing_world)) = None"
    by (simp add: writing_dir_def writing_world_def sample_world_def)
  have old: "file_content (nodes writing_world) (f_path ?f) = ''ab''"
    "write_pos ?f ''ab'' = length ''ab''"
    by (simp_all add: writing_world_def file_content_def write_pos_def)
  obtain w' where h2: "file_flush 3 (disk_full writing_world) = (Inl (OSError ''[Errno 28] No space left on device''), w')"
    by (simp add: file_flush_def lib_call_def disk_full_def)
  from flush_Directory_only[of writing_dir _ writing_world] h1 old
  have p1: "fst (sink_flush (DirectorySink writing_dir) writing_world) = Inr ()
   \<and> nodes (snd (sink_flush (DirectorySink writing_dir) writing_world)) ''/root/sda.data'' = Some (RegFile ''abcd'')
   \<and> map_option f_buf (files (snd (sink_flush (DirectorySink writing_dir) writing_world)) 3) = Some []"
    by fastforce
  from flush_Directory_only[of writing_dir _ "disk_full writing_world"] h1 h2
  have p2: "sink_flush (DirectorySink writing_dir) (disk_full writing_world)
       = (Inl (Lib (OSError ''[Errno 28] No space left on device'')), w')"
    by blast
  from p1 p2 h2 show ?thesis by simp
qed

text \<open>
  C8 as stated fails for the archive backend: the sink that \<open>Zip()\<close> returns, with a
  member open, has no \<open>flush\<close>; the call ends in \<open>AttributeError\<close>.
\<close>

theorem Zip_flush_counterexample:
  "fst (Zip_init sample_world) = Inr \<lparr>zipStream = Some 3, zipFileStream = None\<rparr>
   \<and> fst (Zip_open \<lparr>zipStream = Some 3, zipFileStream = None\<rparr> ''sda.data'' None (snd (Zip_init sample_world))) = Inr 4
   \<and> fst (snd (Zip_open \<lparr>zipStream = Some 3, zipFileStream = None\<rparr> ''sda.data'' None (snd (Zip_init sample_world))))
       = \<lparr>zipStream = Some 3, zipFileStream = Some 4\<rparr>
   \<and> ''flush'' \<notin> set (class_methods (ZipSink \<lparr>zipStream = Some 3, zipFileStream = Some 4\<rparr>))
   \<and> fst (sink_flush (ZipSink \<lparr>zipStream = Some 3, zipFileStream = Some 4\<rparr>)
            (snd (snd (Zip_open \<lparr>zipStream = Some 3, zipFileStream = None\<rparr> ''sda.data'' None (snd (Zip_init sample_world))))))
       = Inl (Lib (AttributeError ''Zip object has no attribute flush''))"
  by (simp add: Zip_init_def Zip_open_def zipfile_new_def zipfile_open_def datetime_now_def ZipInfo_new_def
        ZIP_STORED_def replace_microsecond_0_timetuple_def lib_call_def sample_world_def Let_def)


section \<open>Writing an entry and reading it back\<close>












lemmas entry_eval = sink_write_entry_def Directory_open_def Directory_write_def Directory_close_def
  builtin_open_def file_write_def file_close_def flush_node_def flushed_def write_at_def write_pos_def
  file_content_def writable_def rebind_def finalize_file_def read_back_def propagate_def
  lib_call_def abspath_def valid_mode_def mode_kinds_def Let_def
  Zip_init_def Zip_open_def Zip_write_def Zip_close_def zipfile_new_def zipfile_open_def
  zipmember_write_def zipmember_close_def zipfile_close_def zip_read_back_def datetime_now_def
  ZipInfo_new_def ZIP_STORED_def replace_microsecond_0_timetuple_def
  sample_world_def backup_dir_def stdout_zip_def archive_world_def




text \<open>
  What the condition keeps out: a sink with an entry open on \<open>sda.data\<close>, \<open>ab\<close> in the
  file and \<open>cd\<close> not yet flushed, is asked to write the entry \<open>y\<close> to the same path, with
  no \<open>close\<close> in between. Opening truncates the file; the assignment to
  \<open>self.fileHandle\<close> lets go of the first file object, which, the caller not holding it,
  is flushed at its offset 2; the entry read back is \<open>y\<close>, a NUL byte, \<open>cd\<close>. When the
  caller still holds the first file object, nothing is flushed and the entry reads \<open>y\<close>.
\<close>

lemma entry_over_open_entry:
  "\<not> no_entry_open (DirectorySink writing_dir) writing_world
   \<and> fst (sink_write_entry (DirectorySink writing_dir) ''sda.data'' [''y''] writing_world) = Inr ()
   \<and> read_back (snd (snd (sink_write_entry (DirectorySink writing_dir) ''sda.data'' [''y''] writing_world)))
        ''sda.data'' = Some (''y'' @ [CHR 0x00] @ ''cd'')
   \<and> read_back (snd (snd (sink_write_entry (DirectorySink writing_dir) ''sda.data'' [''y''] held_world)))
        ''sda.data'' = Some ''y''"
  by (simp add: entry_eval writing_dir_def writing_world_def held_world_def)

section \<open>Facts about the network\<close>

lemma upt_3: "[L ..< L + 3] = [L, Suc L, Suc (Suc L)]"
  by (simp add: upt_rec)

lemma pending_fault_3:
  "pending_fault n 3 =
     (case sshfault n (length (sshlog n)) of
        Some e \<Rightarrow> Some e
      | None \<Rightarrow>
          (case sshfault n (Suc (length (sshlog n))) of
             Some e \<Rightarrow> Some e
           | None \<Rightarrow> sshfault n (Suc (Suc (length (sshlog n))))))"
  by (simp add: pending_fault_def upt_3 split: option.splits)

lemma pending_fault_log_msg: "pending_fault (log_msg l m n) k = pending_fault n k"
  by (simp add: pending_fault_def log_msg_def)

lemma sftp_method_run:
  assumes "connection self \<notin> set (closed_clients n)"
  shows "sftp_method self c n =
     (case sshfault n (length (sshlog n)) of
        Some e \<Rightarrow> (Inl e, n\<lparr>sshlog := sshlog n @ [GetTransport (connection self)]\<rparr>)
      | None \<Rightarrow>
          (case sshfault n (Suc (length (sshlog n))) of
             Some e \<Rightarrow> (Inl e, n\<lparr>sshlog := sshlog n @ [GetTransport (connection self),
                                                          SFTPFromTransport (connection self)]\<rparr>)
           | None \<Rightarrow>
               (case sshfault n (Suc (Suc (length (sshlog n)))) of
                  Some e \<Rightarrow> (Inl e, n\<lparr>sshlog := sshlog n @ [GetTransport (connection self),
                                  SFTPFromTransport (connection self), c (nchan n)],
                                  nchan := Suc (nchan n)\<rparr>)
                | None \<Rightarrow> (Inr (), n\<lparr>sshlog := sshlog n @ [GetTransport (connection self),
                                  SFTPFromTransport (connection self), c (nchan n)],
                                  nchan := Suc (nchan n)\<rparr>))))"
  using assms
  by (simp add: sftp_method_def sftp_def ssh_get_transport_def SFTPClient_from_transport_def
        ssh_unit_call_def ssh_call_def split: option.splits)


lemma log_msg_fields:
  "sshlog (log_msg l m n) = sshlog n" "sshfault (log_msg l m n) = sshfault n"
  "nchan (log_msg l m n) = nchan n" "closed_clients (log_msg l m n) = closed_clients n"
  "logging (log_msg l m n) = logging n @ [(l, m)]" "exec_reply (log_msg l m n) = exec_reply n"
  "utf8_valid (log_msg l m n) = utf8_valid n"
  by (simp_all add: log_msg_def)

lemmas net_eval = exists_def copyFrom_def copyTo_def sftp_method_def sftp_def ssh_get_transport_def
  SFTPClient_from_transport_def ssh_unit_call_def ssh_call_def log_msg_def failing_at_def
  linked_net_def fresh_net_def sample_client_def Let_def

lemma pending_fault_linked:
  "pending_fault linked_net 3 = None"
  "pending_fault (failing_at 6 e linked_net) 3 = Some e"
  "pending_fault (failing_at 5 e linked_net) 3 = Some e"
  by (simp_all add: pending_fault_3 failing_at_def linked_net_def fresh_net_def)

lemma sample_client_open:
  "connection sample_client \<notin> set (closed_clients linked_net)"
  "connection sample_client \<notin> set (closed_clients (failing_at k e linked_net))"
  by (simp_all add: failing_at_def linked_net_def fresh_net_def sample_client_def)

section \<open>Properties of \<open>Client.exists\<close>\<close>

text \<open>
  C6, as the code has it. On a client whose connection is not closed, \<open>exists\<close> makes
  three library calls: it asks for the transport, derives a sub-channel and calls \<open>stat\<close>
  on the path. It returns True exactly when none of the three raises, that is, when the
  path was stat-ed. When the first exception raised is an \<open>OSError\<close> (\<open>IOError\<close>) it
  returns False. Any other exception, such as paramiko's \<open>SSHException\<close>, is not caught
  and reaches the caller.
\<close>

theorem exists_collapses_OSError_only:
  assumes "connection self \<notin> set (closed_clients n)"
  shows "(fst (exists self p n) = Inr True \<longleftrightarrow> pending_fault n 3 = None)
   \<and> (pending_fault n 3 = None \<longrightarrow>
         new_calls n (snd (exists self p n))
           = [GetTransport (connection self), SFTPFromTransport (connection self), SFTPStat (nchan n) p])
   \<and> (\<forall>e. pending_fault n 3 = Some e \<and> is_OSError e \<longrightarrow> fst (exists self p n) = Inr False)
   \<and> (\<forall>e. pending_fault n 3 = Some e \<and> \<not> is_OSError e \<longrightarrow> fst (exists self p n) = Inl (Lib e))"
  by (auto simp: exists_def sftp_method_run[OF assms] pending_fault_3 new_calls_def
           split: option.splits)

text \<open>
  The theorem at work on the sample hypervisor: the path stat-ed; \<open>stat\<close> failing with
  an \<open>OSError\<close>; \<open>stat\<close> failing with \<open>EOFError\<close>.
\<close>

theorem exists_collapses_OSError_only_witness:
  "fst (exists sample_client ''/var/tmp/sock'' linked_net) = Inr True
   \<and> new_calls linked_net (snd (exists sample_client ''/var/tmp/sock'' linked_net))
        = [GetTransport 0, SFTPFromTransport 0, SFTPStat 0 ''/var/tmp/sock'']
   \<and> fst (exists sample_client ''/var/tmp/sock''
            (failing_at 6 (OSError ''[Errno 2] No such file'') linked_net)) = Inr False
   \<and> fst (exists sample_client ''/var/tmp/sock''
            (failing_at 6 (EOFError ''closed'') linked_net)) = Inl (Lib (EOFError ''closed''))"
proof -
  note t = exists_collapses_OSError_only
  have a: "fst (exists sample_client ''/var/tmp/sock'' linked_net) = Inr True
    \<and> new_calls linked_net (snd (exists sample_client ''/var/tmp/sock'' linked_net))
        = [GetTransport (connection sample_client), SFTPFromTransport (connection sample_client),
           SFTPStat (nchan linked_net) ''/var/tmp/sock'']"
    using t[OF sample_client_open(1), where p="''/var/tmp/sock''"] pending_fault_linked(1) by blast
  have b: "fst (exists sample_client ''/var/tmp/sock''
            (failing_at 6 (OSError ''[Errno 2] No such file'') linked_net)) = Inr False"
    using t[OF sample_client_open(2)[where k=6 and e="OSError ''[Errno 2] No such file''"], where p="''/var/tmp/sock''"]
      pending_fault_linked(2)[of "OSError ''[Errno 2] No such file''"]
    by (metis is_OSError.simps(1))
  have c: "fst (exists sample_client ''/var/tmp/sock''
            (failing_at 6 (EOFError ''closed'') linked_net)) = Inl (Lib (EOFError ''closed''))"
    using t[OF sample_client_open(2)[where k=6 and e="EOFError ''closed''"], where p="''/var/tmp/sock''"]
      pending_fault_linked(2)[of "EOFError ''closed''"]
    by (metis is_OSError.simps(8))
  from a b c show ?thesis
    by (simp add: sample_client_def linked_net_def fresh_net_def)
qed

text \<open>
  C6 as stated fails: when deriving the sub-channel raises \<open>SSHException\<close> (the session
  is no longer active), \<open>exists\<close> raises it.
\<close>

theorem exists_raises_counterexample:
  "fst (exists sample_client ''/var/tmp/sock''
         (failing_at 5 (SSHException ''SSH session not active'') linked_net))
     = Inl (Lib (SSHException ''SSH session not active''))"
  by (simp add: net_eval)

section \<open>Properties of \<open>Client.copyFrom\<close> and \<open>Client.copyTo\<close>\<close>

text \<open>
  C3, as the code has it. On a client whose connection is not closed, \<open>copyFrom\<close> and
  \<open>copyTo\<close> ask for the transport, derive a sub-channel and call \<open>get\<close> or \<open>put\<close>.
  When none of the three calls raises they return None. When the first exception raised is
  an \<open>SSHException\<close> they log the warning \<open>Error during file copy\<close> and return None as
  well, so the returned value does not tell success from such a failure. Any other
  exception, such as the \<open>IOError\<close> for a missing file, is not caught and reaches the
  caller.
\<close>

theorem copy_downgrades_SSHException_only:
  assumes "connection self \<notin> set (closed_clients n)"
  shows "(pending_fault n 3 = None \<longrightarrow>
           fst (copyFrom self r l n) = Inr ()
         \<and> new_calls n (snd (copyFrom self r l n))
             = [GetTransport (connection self), SFTPFromTransport (connection self), SFTPGet (nchan n) r l]
         \<and> logging (snd (copyFrom self r l n))
             = logging n @ [(INFO, ''Downloading file ['' @ r @ ''] to ['' @ l @ '']'')])
   \<and> (\<forall>e. pending_fault n 3 = Some e \<and> is_SSHException e \<longrightarrow>
           fst (copyFrom self r l n) = Inr ()
         \<and> logging (snd (copyFrom self r l n))
             = logging n @ [(INFO, ''Downloading file ['' @ r @ ''] to ['' @ l @ '']''),
                            (WARNING, ''Error during file copy: ['' @ str_exc e @ '']'')])
   \<and> (\<forall>e. pending_fault n 3 = Some e \<and> \<not> is_SSHException e \<longrightarrow>
           fst (copyFrom self r l n) = Inl (Lib e))
   \<and> (pending_fault n 3 = None \<longrightarrow>
           fst (copyTo self l r n) = Inr ()
         \<and> new_calls n (snd (copyTo self l r n))
             = [GetTransport (connection self), SFTPFromTransport (connection self), SFTPPut (nchan n) l r]
         \<and> logging (snd (copyTo self l r n))
             = logging n @ [(INFO, ''Uploading file ['' @ l @ ''] to ['' @ r @ '']'')])
   \<and> (\<forall>e. pending_fault n 3 = Some e \<and> is_SSHException e \<longrightarrow>
           fst (copyTo self l r n) = Inr ()
         \<and> logging (snd (copyTo self l r n))
             = logging n @ [(INFO, ''Uploading file ['' @ l @ ''] to ['' @ r @ '']''),
                            (WARNING, ''Error during file copy: ['' @ str_exc e @ '']'')])
   \<and> (\<forall>e. pending_fault n 3 = Some e \<and> \<not> is_SSHException e \<longrightarrow>
           fst (copyTo self l r n) = Inl (Lib e))"
proof -
  have c: "connection self \<notin> set (closed_clients (log_msg lv m n))" for lv m
    using assms by (simp add: log_msg_fields)
  show ?thesis
    by (auto simp: copyFrom_def copyTo_def Let_def sftp_method_run[OF c] pending_fault_3 new_calls_def
                   log_msg_fields
             split: option.splits)
qed

text \<open>
  The theorem at work on the sample hypervisor: a download that succeeds, one whose
  sub-channel fails with \<open>SSHException\<close>, an upload refused with an \<open>OSError\<close> and one
  whose sub-channel fails.
\<close>

theorem copy_downgrades_SSHException_only_witness:
  "fst (copyFrom sample_client ''/var/tmp/a.xml'' ''/tmp/a.xml'' linked_net) = Inr ()
   \<and> new_calls linked_net (snd (copyFrom sample_client ''/var/tmp/a.xml'' ''/tmp/a.xml'' linked_net))
        = [GetTransport 0, SFTPFromTransport 0, SFTPGet 0 ''/var/tmp/a.xml'' ''/tmp/a.xml'']
   \<and> fst (copyFrom sample_client ''/var/tmp/a.xml'' ''/tmp/a.xml''
            (failing_at 5 (SSHException ''Channel closed.'') linked_net)) = Inr ()
   \<and> last (logging (snd (copyFrom sample_client ''/var/tmp/a.xml'' ''/tmp/a.xml''
            (failing_at 5 (SSHException ''Channel closed.'') linked_net))))
        = (WARNING, ''Error during file copy: [Channel closed.]'')
   \<and> fst (copyTo sample_client ''/tmp/a.xml'' ''/var/tmp/a.xml''
            (failing_at 6 (OSError ''[Errno 13] Permission denied'') linked_net))
        = Inl (Lib (OSError ''[Errno 13] Permission denied''))
   \<and> fst (copyTo sample_client ''/tmp/a.xml'' ''/var/tmp/a.xml''
            (failing_at 5 (SSHException ''Channel closed.'') linked_net)) = Inr ()"
proof -
  note t = copy_downgrades_SSHException_only
  let ?ssh = "SSHException ''Channel closed.''"
  let ?os = "OSError ''[Errno 13] Permission denied''"
  have a: "fst (copyFrom sample_client ''/var/tmp/a.xml'' ''/tmp/a.xml'' linked_net) = Inr ()
    \<and> new_calls linked_net (snd (copyFrom sample_client ''/var/tmp/a.xml'' ''/tmp/a.xml'' linked_net))
        = [GetTransport (connection sample_client), SFTPFromTransport (connection sample_client),
           SFTPGet (nchan linked_net) ''/var/tmp/a.xml'' ''/tmp/a.xml'']"
    using t[OF sample_client_open(1), where r="''/var/tmp/a.xml''" and l="''/tmp/a.xml''"] pending_fault_linked(1)
    by blast
  have s: "is_SSHException ?ssh" "\<not> is_SSHException ?os" by simp_all
  have b: "fst (copyFrom sample_client ''/var/tmp/a.xml'' ''/tmp/a.xml'' (failing_at 5 ?ssh linked_net)) = Inr ()
    \<and> logging (snd (copyFrom sample_client ''/var/tmp/a.xml'' ''/tmp/a.xml'' (failing_at 5 ?ssh linked_net)))
         = logging (failing_at 5 ?ssh linked_net)
           @ [(INFO, ''Downloading file ['' @ ''/var/tmp/a.xml'' @ ''] to ['' @ ''/tmp/a.xml'' @ '']''),
              (WARNING, ''Error during file copy: ['' @ str_exc ?ssh @ '']'')]"
    using t[OF sample_client_open(2)[where k=5 and e="?ssh"], where r="''/var/tmp/a.xml''" and l="''/tmp/a.xml''"]
      pending_fault_linked(3)[of ?ssh] s(1)
    by blast
  have c: "fst (copyTo sample_client ''/tmp/a.xml'' ''/var/tmp/a.xml'' (failing_at 6 ?os linked_net))
        = Inl (Lib ?os)"
    using t[OF sample_client_open(2)[where k=6 and e="?os"], where l="''/tmp/a.xml''" and r="''/var/tmp/a.xml''"]
      pending_fault_linked(2)[of ?os] s(2)
    by blast
  have d: "fst (copyTo sample_client ''/tmp/a.xml'' ''/var/tmp/a.xml'' (failing_at 5 ?ssh linked_net)) = Inr ()"
    using t[OF sample_client_open(2)[where k=5 and e="?ssh"], where l="''/tmp/a.xml''" and r="''/var/tmp/a.xml''"]
      pending_fault_linked(3)[of ?ssh] s(1)
    by blast
  from a b c d show ?thesis
    by (simp add: sample_client_def linked_net_def fresh_net_def)
qed

text \<open>
  C3 as stated fails: a download of a remote file that does not exist, and an upload of a
  local file that does not exist, raise the \<open>OSError\<close> of the transfer.
\<close>

theorem copy_raises_counterexample:
  "fst (copyFrom sample_client ''/var/tmp/missing.xml'' ''/tmp/a.xml''
         (failing_at 6 (OSError ''[Errno 2] No such file'') linked_net))
     = Inl (Lib (OSError ''[Errno 2] No such file''))
   \<and> fst (copyTo sample_client ''/tmp/missing.xml'' ''/var/tmp/a.xml''
         (failing_at 6 (OSError ''[Errno 2] No such file or directory'') linked_net))
     = Inl (Lib (OSError ''[Errno 2] No such file or directory''))"
  by (simp add: net_eval)

section \<open>Properties of \<open>Client.run\<close>\<close>

lemma Client_execute_log:
  "sshlog (snd (Client_execute self cmd n)) = sshlog n @ [ExecCommand (connection self) cmd]"
  by (simp add: Client_execute_def ssh_exec_command_def ssh_call_def decode_def
           split: option.splits prod.splits sum.splits)

lemma Client_execute_Inr:
  assumes "Client_execute self cmd n = (Inr (ret, e, out'), n')"
  shows "exec_reply n (length (sshlog n)) cmd = (ret, fst (snd (exec_reply n (length (sshlog n)) cmd)),
                                                  snd (snd (exec_reply n (length (sshlog n)) cmd)))"
    and "e = strip (fst (snd (exec_reply n (length (sshlog n)) cmd)))"
    and "out' = strip (snd (snd (exec_reply n (length (sshlog n)) cmd)))"
    and "logging n' = logging n"
  using assms
  by (auto simp: Client_execute_def ssh_exec_command_def ssh_call_def decode_def
           split: option.splits prod.splits sum.splits if_splits)

lemma Client_execute_raises:
  "(\<exists>e. fst (Client_execute self cmd n) = Inl e) \<longleftrightarrow>
     sshfault n (length (sshlog n)) \<noteq> None
     \<or> \<not> utf8_valid n (strip (fst (snd (exec_reply n (length (sshlog n)) cmd))))
     \<or> \<not> utf8_valid n (strip (snd (snd (exec_reply n (length (sshlog n)) cmd))))"
  by (auto simp: Client_execute_def ssh_exec_command_def ssh_call_def decode_def
           split: option.splits prod.splits sum.splits if_splits)

lemmas run_eval = Client_execute_def ssh_exec_command_def ssh_call_def decode_def strip_def
  is_ascii_space_def log_msg_def sample_reply_def linked_net_def fresh_net_def sample_client_def




text \<open>
  C5. Let the command's execution complete with exit status zero. Without a pid file
  path (None, or the empty string) \<open>run\<close> returns a \<open>processInfo\<close> whose \<open>pid\<close> is
  None, after that one execution. With a pid file path, when the second execution, \<open>cat\<close>
  of that path, completes, \<open>run\<close> returns a \<open>processInfo\<close> whose \<open>pid\<close> is that
  command's standard output, stripped of whitespace at both ends.
\<close>

theorem run_pid_from_pidFile:
  assumes "Client_execute self cmd (log_msg DEBUG (''Executing command: ['' @ cmd @ '']'') n)
             = (Inr (0, err1, out1), n1)"
  shows "(\<not> truthy pidFile' \<longrightarrow>
           fst (run self cmd pidFile' logFile' n) = Inr \<lparr>pid = None, logFile = logFile', err = err1, out = out1\<rparr>
         \<and> new_calls n (snd (run self cmd pidFile' logFile' n)) = [ExecCommand (connection self) cmd])
   \<and> (\<forall>ret2 err2 out2 n3.
         truthy pidFile'
         \<and> Client_execute self (''cat '' @ the pidFile') (log_msg DEBUG (''PIDfile: ['' @ the pidFile' @ '']'') n1)
             = (Inr (ret2, err2, out2), n3) \<longrightarrow>
           fst (run self cmd pidFile' logFile' n)
             = Inr \<lparr>pid = Some out2, logFile = logFile', err = err1, out = out1\<rparr>
         \<and> out2 = strip (snd (snd (exec_reply n1 (length (sshlog n1)) (''cat '' @ the pidFile'))))
         \<and> new_calls n (snd (run self cmd pidFile' logFile' n))
             = [ExecCommand (connection self) cmd, ExecCommand (connection self) (''cat '' @ the pidFile')])"
proof (intro conjI allI impI)
  let ?n0 = "log_msg DEBUG (''Executing command: ['' @ cmd @ '']'') n"
  from Client_execute_log[of self cmd ?n0] assms
  have l1: "sshlog n1 = sshlog n @ [ExecCommand (connection self) cmd]"
    by (simp add: log_msg_fields)
  {
    assume "\<not> truthy pidFile'"
    with assms l1
    show "fst (run self cmd pidFile' logFile' n) = Inr \<lparr>pid = None, logFile = logFile', err = err1, out = out1\<rparr>"
      and "new_calls n (snd (run self cmd pidFile' logFile' n)) = [ExecCommand (connection self) cmd]"
      by (simp_all add: run_def Let_def new_calls_def)
  }
  fix ret2 err2 out2 n3
  let ?n2 = "log_msg DEBUG (''PIDfile: ['' @ the pidFile' @ '']'') n1"
  assume a: "truthy pidFile'
         \<and> Client_execute self (''cat '' @ the pidFile') ?n2 = (Inr (ret2, err2, out2), n3)"
  then have t: "truthy pidFile'"
    and e2: "Client_execute self (''cat '' @ the pidFile') ?n2 = (Inr (ret2, err2, out2), n3)"
    by simp_all
  from Client_execute_log[of self "''cat '' @ the pidFile'" ?n2] e2 l1
  have l2: "sshlog n3 = sshlog n @ [ExecCommand (connection self) cmd,
                                     ExecCommand (connection self) (''cat '' @ the pidFile')]"
    by (simp add: log_msg_fields)
  from assms t e2
  show "fst (run self cmd pidFile' logFile' n)
             = Inr \<lparr>pid = Some out2, logFile = logFile', err = err1, out = out1\<rparr>"
    by (simp add: run_def Let_def)
  from Client_execute_Inr(3)[OF e2]
  show "out2 = strip (snd (snd (exec_reply n1 (length (sshlog n1)) (''cat '' @ the pidFile'))))"
    by (simp add: log_msg_fields)
  from assms t e2 l2
  show "new_calls n (snd (run self cmd pidFile' logFile' n))
             = [ExecCommand (connection self) cmd, ExecCommand (connection self) (''cat '' @ the pidFile')]"
    by (simp add: run_def Let_def new_calls_def log_msg_fields)
qed

text \<open>
  The theorem at work on the sample hypervisor, whose \<open>/tmp/x.pid\<close> holds \<open>4242\<close>
  between a blank and a newline.
\<close>

theorem run_pid_from_pidFile_witness:
  "fst (run sample_client ''qemu-nbd --fork'' (Some ''/tmp/x.pid'') None linked_net)
     = Inr \<lparr>pid = Some ''4242'', logFile = None, err = [], out = []\<rparr>
   \<and> snd (snd (exec_reply linked_net 5 ''cat /tmp/x.pid'')) = '' 4242'' @ [CHR 0x0A]
   \<and> new_calls linked_net (snd (run sample_client ''qemu-nbd --fork'' (Some ''/tmp/x.pid'') None linked_net))
       = [ExecCommand 0 ''qemu-nbd --fork'', ExecCommand 0 ''cat /tmp/x.pid'']
   \<and> fst (run sample_client ''qemu-nbd --fork'' None None linked_net)
       = Inr \<lparr>pid = None, logFile = None, err = [], out = []\<rparr>"
proof -
  let ?Q = "Client_execute sample_client ''qemu-nbd --fork''
              (log_msg DEBUG (''Executing command: ['' @ ''qemu-nbd --fork'' @ '']'') linked_net)"
  let ?P = "Client_execute sample_client (''cat '' @ the (Some ''/tmp/x.pid''))
              (log_msg DEBUG (''PIDfile: ['' @ the (Some ''/tmp/x.pid'') @ '']'') (snd ?Q))"
  have q: "?Q = (Inr (0, [], []), snd ?Q)"
    by (simp add: prod_eq_iff run_eval)
  have p: "truthy (Some ''/tmp/x.pid'') \<and> ?P = (Inr (0, [], ''4242''), snd ?P)"
    by (simp add: prod_eq_iff run_eval)
  note t = run_pid_from_pidFile[OF q]
  from t[where pidFile' = "Some ''/tmp/x.pid''" and logFile' = None] p
  have a: "fst (run sample_client ''qemu-nbd --fork'' (Some ''/tmp/x.pid'') None linked_net)
             = Inr \<lparr>pid = Some ''4242'', logFile = None, err = [], out = []\<rparr>
     \<and> new_calls linked_net (snd (run sample_client ''qemu-nbd --fork'' (Some ''/tmp/x.pid'') None linked_net))
             = [ExecCommand (connection sample_client) ''qemu-nbd --fork'',
                ExecCommand (connection sample_client) (''cat '' @ the (Some ''/tmp/x.pid''))]"
    by blast
  from t[where pidFile' = None and logFile' = None]
  have b: "fst (run sample_client ''qemu-nbd --fork'' None None linked_net)
             = Inr \<lparr>pid = None, logFile = None, err = [], out = []\<rparr>"
    by simp
  have c: "snd (snd (exec_reply linked_net 5 ''cat /tmp/x.pid'')) = '' 4242'' @ [CHR 0x0A]"
    by (simp add: linked_net_def fresh_net_def sample_reply_def)
  from a b c show ?thesis by (simp add: sample_client_def)
qed

section \<open>Properties of the constructor\<close>

text \<open>
  C7, the code at work. \<open>Client('hv1', 'root')\<close> on the sample network makes four
  library calls, the last being \<open>connect\<close> with \<open>timeout=5000\<close>. The value is a constant
  of \<open>connect\<close> and no parameter of the constructor. paramiko reads the timeout in
  seconds.
\<close>

theorem Client_init_connect_timeout:
  "Client_init ''hv1'' ''root'' None fresh_net = (Inr sample_client, linked_net)
   \<and> new_calls fresh_net linked_net
       = [SSHClientNew, LoadSystemHostKeys 0, SetMissingHostKeyPolicy 0 ''AutoAddPolicy'',
          SSHConnect 0 ''hv1'' ''root'' 5000]
   \<and> connect_timeout = 5000"
  by (simp add: Client_init_def connect_def connect_body_def SSHClient_new_def ssh_unit_call_def
        ssh_call_def log_msg_def connect_timeout_def new_calls_def
        fresh_net_def linked_net_def sample_client_def Let_def)

section \<open>Properties of the sub-channels\<close>

lemma pending_fault_None:
  assumes "pending_fault n k = None" "i < k"
  shows "sshfault n (length (sshlog n) + i) = None"
proof -
  let ?xs = "map (sshfault n) [length (sshlog n) ..< length (sshlog n) + k]"
  have "List.find (\<lambda>x. x \<noteq> None) ?xs = None"
  proof (cases "List.find (\<lambda>x. x \<noteq> None) ?xs")
    case None then show ?thesis .
  next
    case (Some x)
    then have "x \<noteq> None" by (auto simp: find_Some_iff)
    with Some assms(1) show ?thesis by (simp add: pending_fault_def)
  qed
  then have "\<forall>x \<in> set ?xs. x = None" by (simp add: find_None_iff)
  moreover have "sshfault n (length (sshlog n) + i) \<in> set ?xs" using assms(2) by simp
  ultimately show ?thesis by blast
qed

lemmas sftp_unfold = sftp_method_def sftp_def ssh_get_transport_def SFTPClient_from_transport_def
  ssh_unit_call_def ssh_call_def

lemma sftp_method_fresh:
  assumes "\<And>ch. chan_of (c ch) = Some ch"
  shows "only_fresh_channels n (snd (sftp_method self c n))"
  by (simp add: sftp_unfold only_fresh_channels_def new_calls_def chan_within_def assms split: option.splits)

lemma only_fresh_log_msg:
  "only_fresh_channels n (log_msg l m n') = only_fresh_channels n n'"
  "only_fresh_channels (log_msg l m n) n' = only_fresh_channels n n'"
  by (simp_all add: only_fresh_channels_def new_calls_def log_msg_def)

lemma exists_fresh: "only_fresh_channels n (snd (exists self p n))"
  using sftp_method_fresh[of "\<lambda>ch. SFTPStat ch p" n self]
  by (auto simp: exists_def split: prod.splits sum.splits)

lemma copyFrom_fresh: "only_fresh_channels n (snd (copyFrom self r l n))"
  using sftp_method_fresh[of "\<lambda>ch. SFTPGet ch r l"
          "log_msg INFO (''Downloading file ['' @ r @ ''] to ['' @ l @ '']'') n" self]
  by (auto simp: copyFrom_def Let_def only_fresh_log_msg split: prod.splits sum.splits)

lemma copyTo_fresh: "only_fresh_channels n (snd (copyTo self l r n))"
  using sftp_method_fresh[of "\<lambda>ch. SFTPPut ch l r"
          "log_msg INFO (''Uploading file ['' @ l @ ''] to ['' @ r @ '']'') n" self]
  by (auto simp: copyTo_def Let_def only_fresh_log_msg split: prod.splits sum.splits)

lemma disconnect_fresh: "only_fresh_channels n (snd (disconnect self n))"
  by (simp add: disconnect_def sftp_unfold ssh_close_def propagate_def only_fresh_channels_def
        new_calls_def chan_within_def split: option.splits)

lemma disconnect_close:
  assumes "SFTPClose ch \<in> set (new_calls n (snd (disconnect self n)))"
  shows "ch = Suc (nchan n)" and "nchan (snd (disconnect self n)) = Suc (Suc (nchan n))"
  using assms
  by (auto simp: disconnect_def sftp_unfold ssh_close_def propagate_def new_calls_def
           split: option.splits if_splits)

lemma pending_fault_quiet: "sshfault n = (\<lambda>_. None) \<Longrightarrow> pending_fault n k = None"
  by (auto simp: pending_fault_def find_Some_iff split: option.splits)

lemma disconnect_run:
  assumes "connection self \<notin> set (closed_clients n)" "pending_fault n 6 = None"
  shows "new_calls n (snd (disconnect self n))
           = [GetTransport (connection self), SFTPFromTransport (connection self),
              GetTransport (connection self), SFTPFromTransport (connection self),
              SFTPClose (Suc (nchan n)), SSHClose (connection self)]"
proof -
  have f: "sshfault n (length (sshlog n)) = None"
    "sshfault n (Suc (length (sshlog n))) = None"
    "sshfault n (Suc (Suc (length (sshlog n)))) = None"
    "sshfault n (Suc (Suc (Suc (length (sshlog n))))) = None"
    "sshfault n (Suc (Suc (Suc (Suc (length (sshlog n)))))) = None"
    "sshfault n (Suc (Suc (Suc (Suc (Suc (length (sshlog n))))))) = None"
    using pending_fault_None[OF assms(2), of 0] pending_fault_None[OF assms(2), of 1]
      pending_fault_None[OF assms(2), of 2] pending_fault_None[OF assms(2), of 3]
      pending_fault_None[OF assms(2), of 4] pending_fault_None[OF assms(2), of 5]
    by (simp_all add: numeral_eq_Suc)
  show ?thesis
    using assms(1)
    by (simp add: disconnect_def sftp_unfold ssh_close_def propagate_def new_calls_def f)
qed

lemma sftp_method_nchan:
  assumes "connection self \<notin> set (closed_clients n)" "pending_fault n 3 = None"
  shows "fst (sftp_method self c n) = Inr ()" "nchan (snd (sftp_method self c n)) = Suc (nchan n)"
  using assms(2) by (auto simp: sftp_method_run[OF assms(1)] pending_fault_3 split: option.splits)

lemma sftp_only_connection:
  fixes other :: Client
  assumes "connection other = connection self"
  shows "sftp other n = sftp self n" and "sftp_method other c n = sftp_method self c n"
  using assms by (simp_all add: sftp_method_def sftp_def)

lemma after_download_fields:
  "sshfault after_download = (\<lambda>_. None)" "closed_clients after_download = []"
  "nchan after_download = 1"
  by (simp_all add: after_download_def net_eval)

text \<open>
  C9. Whatever the state of the network and whichever calls fail, every sub-channel that
  \<open>exists\<close>, \<open>copyFrom\<close>, \<open>copyTo\<close> and \<open>disconnect\<close> work on was derived from
  the transport during that very call: its number is none of those handed out before.
  The sub-channel that \<open>disconnect\<close> closes is the second of the two it derives itself.
  When no call fails, each of \<open>exists\<close>, \<open>copyFrom\<close> and \<open>copyTo\<close> derives exactly
  one sub-channel, and \<open>disconnect\<close> derives two, closes the second and closes the
  connection. The client object holds no sub-channel: the four methods depend on it
  through its connection only.
\<close>

theorem sub_channel_derived_anew:
  "only_fresh_channels n (snd (exists self p n))
   \<and> only_fresh_channels n (snd (copyFrom self r l n))
   \<and> only_fresh_channels n (snd (copyTo self l r n))
   \<and> only_fresh_channels n (snd (disconnect self n))
   \<and> (\<forall>ch. SFTPClose ch \<in> set (new_calls n (snd (disconnect self n))) \<longrightarrow>
         ch = Suc (nchan n) \<and> nchan (snd (disconnect self n)) = Suc (Suc (nchan n)))
   \<and> (connection self \<notin> set (closed_clients n) \<and> pending_fault n 3 = None \<longrightarrow>
         nchan (snd (exists self p n)) = Suc (nchan n)
       \<and> nchan (snd (copyFrom self r l n)) = Suc (nchan n)
       \<and> nchan (snd (copyTo self l r n)) = Suc (nchan n))
   \<and> (connection self \<notin> set (closed_clients n) \<and> pending_fault n 6 = None \<longrightarrow>
         new_calls n (snd (disconnect self n))
           = [GetTransport (connection self), SFTPFromTransport (connection self),
              GetTransport (connection self), SFTPFromTransport (connection self),
              SFTPClose (Suc (nchan n)), SSHClose (connection self)])
   \<and> (\<forall>other :: Client. connection other = connection self \<longrightarrow>
         exists other p n = exists self p n \<and> copyFrom other r l n = copyFrom self r l n
       \<and> copyTo other l r n = copyTo self l r n \<and> disconnect other n = disconnect self n)"
proof (intro conjI allI impI)
  show "only_fresh_channels n (snd (exists self p n))" by (rule exists_fresh)
  show "only_fresh_channels n (snd (copyFrom self r l n))" by (rule copyFrom_fresh)
  show "only_fresh_channels n (snd (copyTo self l r n))" by (rule copyTo_fresh)
  show "only_fresh_channels n (snd (disconnect self n))" by (rule disconnect_fresh)
next
  fix ch assume "SFTPClose ch \<in> set (new_calls n (snd (disconnect self n)))"
  then show "ch = Suc (nchan n)" and "nchan (snd (disconnect self n)) = Suc (Suc (nchan n))"
    by (rule disconnect_close)+
next
  assume a: "connection self \<notin> set (closed_clients n) \<and> pending_fault n 3 = None"
  then have c: "connection self \<notin> set (closed_clients (log_msg lv m n))"
    and q: "pending_fault (log_msg lv m n) 3 = None" for lv m
    by (simp_all add: log_msg_fields pending_fault_log_msg)
  from a have c0: "connection self \<notin> set (closed_clients n)" and q0: "pending_fault n 3 = None"
    by simp_all
  show "nchan (snd (exists self p n)) = Suc (nchan n)"
    using sftp_method_nchan[OF c0 q0, of "\<lambda>ch. SFTPStat ch p"]
    by (auto simp: exists_def split: prod.splits sum.splits)
  show "nchan (snd (copyFrom self r l n)) = Suc (nchan n)"
    using sftp_method_nchan[OF c q, of "\<lambda>ch. SFTPGet ch r l" INFO
            "''Downloading file ['' @ r @ ''] to ['' @ l @ '']''"]
    by (auto simp: copyFrom_def Let_def log_msg_fields split: prod.splits sum.splits)
  show "nchan (snd (copyTo self l r n)) = Suc (nchan n)"
    using sftp_method_nchan[OF c q, of "\<lambda>ch. SFTPPut ch l r" INFO
            "''Uploading file ['' @ l @ ''] to ['' @ r @ '']''"]
    by (auto simp: copyTo_def Let_def log_msg_fields split: prod.splits sum.splits)
next
  assume "connection self \<notin> set (closed_clients n) \<and> pending_fault n 6 = None"
  then show "new_calls n (snd (disconnect self n))
           = [GetTransport (connection self), SFTPFromTransport (connection self),
              GetTransport (connection self), SFTPFromTransport (connection self),
              SFTPClose (Suc (nchan n)), SSHClose (connection self)]"
    using disconnect_run by blast
next
  fix other :: Client assume o: "connection other = connection self"
  note s = sftp_only_connection[OF o]
  show "exists other p n = exists self p n" by (simp add: exists_def s)
  show "copyFrom other r l n = copyFrom self r l n" by (simp add: copyFrom_def s)
  show "copyTo other l r n = copyTo self l r n" by (simp add: copyTo_def s)
  show "disconnect other n = disconnect self n"
    by (simp add: disconnect_def s o split: prod.splits sum.splits)
qed

text \<open>
  The theorem at work: a download on the sample network works on sub-channel 0; the
  \<open>disconnect\<close> that follows derives sub-channels 1 and 2 and closes 2.
\<close>

theorem sub_channel_derived_anew_witness:
  "nchan linked_net = 0
   \<and> only_fresh_channels linked_net after_download
   \<and> nchan after_download = 1
   \<and> new_calls after_download (snd (disconnect sample_client after_download))
       = [GetTransport 0, SFTPFromTransport 0, GetTransport 0, SFTPFromTransport 0, SFTPClose 2, SSHClose 0]
   \<and> only_fresh_channels after_download (snd (disconnect sample_client after_download))
   \<and> nchan (snd (disconnect sample_client after_download)) = 3
   \<and> exists (sample_client\<lparr>copy := bound_copyTo\<rparr>) ''/var/tmp/sock'' linked_net
       = exists sample_client ''/var/tmp/sock'' linked_net"
proof -
  note t1 = sub_channel_derived_anew[where n = linked_net and self = sample_client
              and r = "''/var/tmp/a.xml''" and l = "''/tmp/a.xml''" and p = "''/var/tmp/sock''"]
  note t2 = sub_channel_derived_anew[where n = after_download and self = sample_client]
  have c1: "connection sample_client \<notin> set (closed_clients linked_net) \<and> pending_fault linked_net 3 = None"
    using sample_client_open(1) pending_fault_linked(1) by simp
  have c2: "connection sample_client \<notin> set (closed_clients after_download) \<and> pending_fault after_download 6 = None"
    using pending_fault_quiet[OF after_download_fields(1)] by (simp add: after_download_fields)
  have o: "connection (sample_client\<lparr>copy := bound_copyTo\<rparr>) = connection sample_client" by simp
  note a = t1[THEN conjunct2, THEN conjunct1, folded after_download_def]
  note t1_6 = t1[THEN conjunct2, THEN conjunct2, THEN conjunct2, THEN conjunct2, THEN conjunct2, THEN conjunct1]
  note b = mp[OF t1_6 c1, THEN conjunct2, THEN conjunct1, folded after_download_def]
  note e = t2[THEN conjunct2, THEN conjunct2, THEN conjunct2, THEN conjunct1]
  note t2_5 = t2[THEN conjunct2, THEN conjunct2, THEN conjunct2, THEN conjunct2, THEN conjunct1]
  note t2_7 = t2[THEN conjunct2, THEN conjunct2, THEN conjunct2, THEN conjunct2, THEN conjunct2,
                 THEN conjunct2, THEN conjunct1]
  note t1_8 = t1[THEN conjunct2, THEN conjunct2, THEN conjunct2, THEN conjunct2, THEN conjunct2,
                 THEN conjunct2, THEN conjunct2]
  note d = mp[OF t2_7 c2]
  have m: "SFTPClose (Suc (nchan after_download))
                  \<in> set (new_calls after_download (snd (disconnect sample_client after_download)))"
    by (simp only: d list.set insert_iff simp_thms)
  note f = mp[OF spec[OF t2_5] m, THEN conjunct2]
  note g = mp[OF spec[OF t1_8] o, THEN conjunct1]
  have z: "nchan linked_net = 0" by (simp add: linked_net_def fresh_net_def)
  have cs: "connection sample_client = 0" by (simp add: sample_client_def)
  have n1: "nchan after_download = 1" using b z by simp
  have d': "new_calls after_download (snd (disconnect sample_client after_download))
       = [GetTransport 0, SFTPFromTransport 0, GetTransport 0, SFTPFromTransport 0, SFTPClose 2, SSHClose 0]"
    using d by (simp add: cs n1)
  have f': "nchan (snd (disconnect sample_client after_download)) = 3"
    using f by (simp add: n1)
  from z a n1 d' e f' g show ?thesis by blast
qed

end
